theory Spec2Isabelle
  imports Main "HOL-Library.Char_ord" "HOL-Library.List_Lexorder"
begin

section \<open>The service registry (contract/contract.js)\<close>

subsection \<open>Stored values and the key-value store\<close>

text \<open>
  The contract keeps everything in one key-value store: \<open>get(key)\<close> answers the
  stored value or \<open>null\<close>, \<open>put(key, value)\<close> overwrites. Three kinds of values are
  written by the contract: the timer feature's \<open>currentTime\<close> (a number), the index
  arrays of service ids, and the service objects. A service object copies whatever
  \<open>get('currentTime')\<close> answered into its \<open>timestamp\<close>, so the two types are mutually
  recursive. \<open>None\<close> stands for \<open>null\<close>.
\<close>

datatype val = VNum int | VArr "string list" | VService service
and service =
  Service (serviceId: string) (methodName: string) (description: string)
    (priceInTNK: string) (category: string) (providerAddress: string)
    (timestamp: "val option") (active: bool)

type_synonym store = "string \<Rightarrow> val option"

definition get :: "store \<Rightarrow> string \<Rightarrow> val option" where
  "get s key = s key"

definition put :: "store \<Rightarrow> string \<Rightarrow> val \<Rightarrow> store" where
  "put s key v = s(key \<mapsto> v)"

text \<open>The template strings \<open>`services/${serviceId}`\<close> and \<open>`providers/${providerAddress}`\<close>.\<close>

definition serviceKey :: "string \<Rightarrow> string" where
  "serviceKey sid = ''services/'' @ sid"

definition providerKey :: "string \<Rightarrow> string" where
  "providerKey addr = ''providers/'' @ addr"

text \<open>The errors the operations return (\<open>return new Error(...)\<close>), and the exception
  a \<open>for ... of\<close> over a value that is not iterable raises.\<close>

datatype error =
    AlreadyExists   \<comment> \<open>\<open>new Error('Service already exists')\<close>\<close>
  | NotFound        \<comment> \<open>\<open>new Error('Service not found')\<close>\<close>
  | Unauthorized    \<comment> \<open>\<open>new Error('Not authorized')\<close>\<close>
  | TypeError       \<comment> \<open>thrown by the runtime\<close>

text \<open>JavaScript truthiness of a stored value: of the values above only the number 0
  is falsy. \<open>x || []\<close> on the answer of \<open>get\<close>.\<close>

fun truthy_val :: "val \<Rightarrow> bool" where
  "truthy_val (VNum n) = (n \<noteq> 0)"
| "truthy_val (VArr xs) = True"
| "truthy_val (VService sv) = True"

definition or_empty :: "val option \<Rightarrow> val" where
  "or_empty x = (case x of None \<Rightarrow> VArr [] | Some v \<Rightarrow> if truthy_val v then v else VArr [])"

text \<open>Assignments to single fields of a service object.\<close>

definition set_description :: "string \<Rightarrow> service \<Rightarrow> service" where
  "set_description d sv = Service (serviceId sv) (methodName sv) d (priceInTNK sv) (category sv)
     (providerAddress sv) (timestamp sv) (active sv)"

definition set_priceInTNK :: "string \<Rightarrow> service \<Rightarrow> service" where
  "set_priceInTNK p sv = Service (serviceId sv) (methodName sv) (description sv) p (category sv)
     (providerAddress sv) (timestamp sv) (active sv)"

definition set_category :: "string \<Rightarrow> service \<Rightarrow> service" where
  "set_category c sv = Service (serviceId sv) (methodName sv) (description sv) (priceInTNK sv) c
     (providerAddress sv) (timestamp sv) (active sv)"

definition set_active :: "bool \<Rightarrow> service \<Rightarrow> service" where
  "set_active b sv = Service (serviceId sv) (methodName sv) (description sv) (priceInTNK sv)
     (category sv) (providerAddress sv) (timestamp sv) b"

subsection \<open>The operations\<close>

text \<open>
  Every operation takes \<open>this.address\<close> (the caller), the fields of \<open>this.value\<close> and
  the store, and answers the returned error (\<open>None\<close> when the function falls off its
  end) together with the store it leaves. An optional field of \<open>this.value\<close> is an
  \<open>option\<close>: \<open>None\<close> is \<open>undefined\<close>.
\<close>

definition registerService ::
  "string \<Rightarrow> string \<Rightarrow> string \<Rightarrow> string \<Rightarrow> string \<Rightarrow> string option \<Rightarrow> store
     \<Rightarrow> error option \<times> store" where
  "registerService address sid meth descr price cat s =
     (let existing = get s (serviceKey sid) in
      if existing \<noteq> None then (Some AlreadyExists, s)
      else
        let providerAddr = address;
            currentTime = get s ''currentTime'';
            sv = Service sid meth descr price
                   (case cat of None \<Rightarrow> ''general''
                    | Some c \<Rightarrow> if c = [] then ''general'' else c)
                   providerAddr currentTime True;
            s1 = put s (serviceKey sid) (VService sv);
            index = (case or_empty (get s1 ''services_index'') of VArr xs \<Rightarrow> xs | _ \<Rightarrow> []);
            s2 = put s1 ''services_index'' (VArr (index @ [sid]));
            providerServices =
              (case or_empty (get s2 (providerKey providerAddr)) of VArr xs \<Rightarrow> xs | _ \<Rightarrow> []);
            s3 = put s2 (providerKey providerAddr) (VArr (providerServices @ [sid]))
        in (None, s3))"

text \<open>A stored value that is not a service object has no \<open>providerAddress\<close>: the
  comparison \<open>service.providerAddress !== this.address\<close> is then true.\<close>

definition updateService ::
  "string \<Rightarrow> string \<Rightarrow> string option \<Rightarrow> string option \<Rightarrow> string option \<Rightarrow> store
     \<Rightarrow> error option \<times> store" where
  "updateService address sid descr price cat s =
     (case get s (serviceKey sid) of
        None \<Rightarrow> (Some NotFound, s)
      | Some (VService sv) \<Rightarrow>
          if providerAddress sv \<noteq> address then (Some Unauthorized, s)
          else
            let sv1 = (case descr of None \<Rightarrow> sv | Some d \<Rightarrow> set_description d sv);
                sv2 = (case price of None \<Rightarrow> sv1 | Some p \<Rightarrow> set_priceInTNK p sv1);
                sv3 = (case cat of None \<Rightarrow> sv2 | Some c \<Rightarrow> set_category c sv2)
            in (None, put s (serviceKey sid) (VService sv3))
      | Some _ \<Rightarrow> (Some Unauthorized, s))"

definition removeService :: "string \<Rightarrow> string \<Rightarrow> store \<Rightarrow> error option \<times> store" where
  "removeService address sid s =
     (case get s (serviceKey sid) of
        None \<Rightarrow> (Some NotFound, s)
      | Some (VService sv) \<Rightarrow>
          if providerAddress sv \<noteq> address then (Some Unauthorized, s)
          else
            let providerAddr = providerAddress sv;
                s1 = put s (serviceKey sid) (VService (set_active False sv));
                s2 = (case or_empty (get s1 ''services_index'') of
                        VArr index \<Rightarrow> put s1 ''services_index'' (VArr (filter (\<lambda>i. i \<noteq> sid) index))
                      | _ \<Rightarrow> s1);
                s3 = (case or_empty (get s2 (providerKey providerAddr)) of
                        VArr ps \<Rightarrow>
                          put s2 (providerKey providerAddr) (VArr (filter (\<lambda>i. i \<noteq> sid) ps))
                      | _ \<Rightarrow> s2)
            in (None, s3)
      | Some _ \<Rightarrow> (Some Unauthorized, s))"

text \<open>The loop of \<open>listServices\<close> and \<open>getProviderServices\<close>: \<open>services\<close> is the array
  being filled; \<open>service && service.active\<close> holds only of an active service object.\<close>

fun collectActive :: "store \<Rightarrow> string list \<Rightarrow> service list \<Rightarrow> service list" where
  "collectActive s [] services = services"
| "collectActive s (sid # rest) services =
     (case get s (serviceKey sid) of
        Some (VService sv) \<Rightarrow>
          if active sv then collectActive s rest (services @ [sv])
          else collectActive s rest services
      | _ \<Rightarrow> collectActive s rest services)"

text \<open>\<open>listServices\<close> prints the services it collected; the model answers them. A
  truthy index that is no array cannot be iterated.\<close>

definition listServices :: "store \<Rightarrow> error + service list" where
  "listServices s =
     (case or_empty (get s ''services_index'') of
        VArr index \<Rightarrow> Inr (collectActive s index [])
      | _ \<Rightarrow> Inl TypeError)"

definition getProviderServices :: "string \<Rightarrow> store \<Rightarrow> error + service list" where
  "getProviderServices addr s =
     (case or_empty (get s (providerKey addr)) of
        VArr ids \<Rightarrow> Inr (collectActive s ids [])
      | _ \<Rightarrow> Inl TypeError)"

text \<open>What \<open>getServiceById\<close> prints: the service, or
  \<open>'Service not found or inactive:'\<close> with the id.\<close>

datatype lookup_output = ServiceShown service | NotFoundOrInactive string

definition getServiceById :: "string \<Rightarrow> store \<Rightarrow> lookup_output" where
  "getServiceById sid s =
     (case get s (serviceKey sid) of
        Some (VService sv) \<Rightarrow> if active sv then ServiceShown sv else NotFoundOrInactive sid
      | _ \<Rightarrow> NotFoundOrInactive sid)"

text \<open>Sequences of registry calls, for statements about every history.\<close>

datatype registry_call =
    Register string string string string string "string option"
  | Update string string "string option" "string option" "string option"
  | Remove string string

fun call :: "registry_call \<Rightarrow> store \<Rightarrow> error option \<times> store" where
  "call (Register a sid m d p c) s = registerService a sid m d p c s"
| "call (Update a sid d p c) s = updateService a sid d p c s"
| "call (Remove a sid) s = removeService a sid s"

fun run :: "registry_call list \<Rightarrow> store \<Rightarrow> store" where
  "run [] s = s"
| "run (c # cs) s = run cs (snd (call c s))"

text \<open>The state of an id: what is stored under its key.\<close>

definition inactive_at :: "store \<Rightarrow> string \<Rightarrow> bool" where
  "inactive_at s sid =
     (case get s (serviceKey sid) of Some (VService sv) \<Rightarrow> \<not> active sv | _ \<Rightarrow> False)"

text \<open>An index is consistent when it is absent or an array each of whose ids, if a
  service object is stored under it, names that object's own \<open>serviceId\<close>.\<close>

definition index_consistent :: "store \<Rightarrow> bool" where
  "index_consistent s =
     (case get s ''services_index'' of
        None \<Rightarrow> True
      | Some (VArr index) \<Rightarrow>
          list_all (\<lambda>k. case get s (serviceKey k) of
                          Some (VService sv) \<Rightarrow> serviceId sv = k
                        | _ \<Rightarrow> True) index
      | Some _ \<Rightarrow> False)"

text \<open>The store before any call, and a short history used in the examples: two
  providers register one service each.\<close>

definition empty_store :: store where
  "empty_store = (\<lambda>key. None)"

definition example_calls :: "registry_call list" where
  "example_calls =
     [Register ''alice'' ''calc'' ''calc.add'' ''adds two numbers'' ''1'' None,
      Register ''bob'' ''echo'' ''text.echo'' '''' ''0'' (Some ''text'')]"

text \<open>The record the first call of \<open>example_calls\<close> stores, and calls made later on
  the same id.\<close>

definition calc_service :: service where
  "calc_service =
     Service ''calc'' ''calc.add'' ''adds two numbers'' ''1'' ''general'' ''alice'' None True"

definition later_calls :: "registry_call list" where
  "later_calls =
     [Update ''alice'' ''calc'' (Some ''back again'') None None,
      Register ''alice'' ''calc'' ''calc.add'' ''adds two numbers'' ''1'' None,
      Remove ''alice'' ''calc'']"

section \<open>JavaScript values\<close>

text \<open>
  The values the dispatcher and the canonical codec handle. Numbers are the integers
  (message ids, parameters, millisecond timestamps); an object is its list of
  properties in insertion order, each key once.
\<close>

datatype jsval =
    JUndefined | JNull | JBool bool | JNum int | JStr string
  | JArr "jsval list" | JObj "(string \<times> jsval) list"

fun truthy :: "jsval \<Rightarrow> bool" where
  "truthy JUndefined = False"
| "truthy JNull = False"
| "truthy (JBool b) = b"
| "truthy (JNum n) = (n \<noteq> 0)"
| "truthy (JStr s) = (s \<noteq> [])"
| "truthy (JArr xs) = True"
| "truthy (JObj kvs) = True"

text \<open>Reading the property \<open>key\<close> of a value that is neither \<open>null\<close> nor \<open>undefined\<close>:
  an object answers what it holds under the key, or \<open>undefined\<close>. The names read
  below (\<open>jsonrpc\<close>, \<open>method\<close>, \<open>id\<close>, \<open>params\<close>, \<open>message\<close> and the keys of the object
  itself) are no properties of a number, a boolean, a string or an array.\<close>

fun field :: "jsval \<Rightarrow> string \<Rightarrow> jsval" where
  "field (JObj kvs) key = (case map_of kvs key of None \<Rightarrow> JUndefined | Some v \<Rightarrow> v)"
| "field v key = JUndefined"

section \<open>The tool dispatcher (features/rpc-handler/index.js)\<close>

record request =
  req_jsonrpc :: jsval
  req_method :: string
  req_params :: jsval
  req_id :: jsval

text \<open>A handler is awaited: it answers a result, or it throws (its promise is
  rejected with) a value, which may be any value. A handler whose promise never settles
  leaves \<open>handleMessage\<close> waiting; the statements below are about handlers that settle.
  An \<open>Error\<close> is, for the dispatcher, an object with a \<open>message\<close>.\<close>

datatype outcome = Returns jsval | Throws jsval

definition js_Error :: "string \<Rightarrow> jsval" where
  "js_Error msg = JObj [(''message'', JStr msg)]"

text \<open>The handler failed with \<open>null\<close> or \<open>undefined\<close>.\<close>

definition nullish_failure :: "outcome \<Rightarrow> bool" where
  "nullish_failure r = (case r of Returns v \<Rightarrow> False | Throws err \<Rightarrow> err = JNull \<or> err = JUndefined)"

record tool_metadata =
  md_description :: string
  md_priceInTNK :: string
  md_category :: string
  md_serviceId :: string

record tool =
  handler :: "jsval \<Rightarrow> outcome"
  metadata :: tool_metadata

text \<open>The fields of the handler object that \<open>handleMessage\<close> reads; \<open>debug\<close> only
  switches logging. \<open>enabledChannels\<close> is \<open>None\<close> for \<open>null\<close> (all channels).\<close>

record rpc_handler =
  tools :: "string \<Rightarrow> tool option"
  enabledChannels :: "string list option"

datatype envelope =
    ResultEnvelope (env_jsonrpc: string) (env_result: jsval) (env_id: jsval)
  | ErrorEnvelope (env_jsonrpc: string) (env_code: int) (env_message: jsval) (env_id: jsval)

text \<open>
  \<open>_parseJsonRpc\<close>. \<open>JSON_parse\<close> is the platform's \<open>JSON.parse\<close>: \<open>None\<close> when it
  throws. The \<open>try\<close> block covers the decoding only; the property reads after it are
  outside, and reading a property of \<open>null\<close> throws.
\<close>

definition decode_payload :: "(string \<Rightarrow> jsval option) \<Rightarrow> jsval \<Rightarrow> jsval option" where
  "decode_payload JSON_parse payload =
     (case payload of
        JStr text \<Rightarrow> JSON_parse text
      | JObj kvs \<Rightarrow> Some payload
      | JArr xs \<Rightarrow> Some payload
      | _ \<Rightarrow> None)"

definition parseJsonRpc :: "(string \<Rightarrow> jsval option) \<Rightarrow> jsval \<Rightarrow> error + request option" where
  "parseJsonRpc JSON_parse payload =
     (case decode_payload JSON_parse payload of
        None \<Rightarrow> Inr None
      | Some json \<Rightarrow>
          if json = JNull \<or> json = JUndefined then Inl TypeError
          else if field json ''jsonrpc'' \<noteq> JStr ''2.0'' then Inr None
          else (case field json ''method'' of
                  JStr m \<Rightarrow>
                    if field json ''id'' = JUndefined then Inr None
                    else Inr (Some \<lparr> req_jsonrpc = field json ''jsonrpc'',
                                      req_method = m,
                                      req_params = (if truthy (field json ''params'')
                                                    then field json ''params'' else JArr []),
                                      req_id = field json ''id'' \<rparr>)
                | _ \<Rightarrow> Inr None))"

text \<open>\<open>handleMessage(channel, payload, connection)\<close>; \<open>connection\<close> is not read. The
  answer is \<open>None\<close> for \<open>null\<close>, an envelope, or the exception that escapes. The
  \<open>catch\<close> block reads \<open>err.message\<close> of the value caught: of \<open>null\<close> and \<open>undefined\<close>
  that read throws in its turn, and nothing catches it.\<close>

definition handleMessage ::
  "(string \<Rightarrow> jsval option) \<Rightarrow> rpc_handler \<Rightarrow> string \<Rightarrow> jsval \<Rightarrow> error + envelope option" where
  "handleMessage JSON_parse h chan payload =
     (if (case enabledChannels h of None \<Rightarrow> False | Some cs \<Rightarrow> chan \<notin> set cs)
      then Inr None
      else
        (case parseJsonRpc JSON_parse payload of
           Inl e \<Rightarrow> Inl e
         | Inr None \<Rightarrow> Inr None
         | Inr (Some rq) \<Rightarrow>
            (case tools h (req_method rq) of
               None \<Rightarrow>
                 Inr (Some (ErrorEnvelope ''2.0'' (- 32601)
                              (JStr (''Method not found: '' @ req_method rq)) (req_id rq)))
             | Some t \<Rightarrow>
                 (case handler t (if truthy (req_params rq) then req_params rq else JArr []) of
                    Returns r \<Rightarrow> Inr (Some (ResultEnvelope ''2.0'' r (req_id rq)))
                  | Throws err \<Rightarrow>
                      if err = JNull \<or> err = JUndefined then Inl TypeError
                      else
                        Inr (Some (ErrorEnvelope ''2.0'' (- 32000)
                                     (if truthy (field err ''message'') then field err ''message''
                                      else JStr ''Internal error'')
                                     (req_id rq)))))))"

text \<open>The parameters a request carries, \<open>json.params || []\<close>, and which the handler is
  called with.\<close>

definition request_params :: "jsval \<Rightarrow> jsval" where
  "request_params json =
     (if truthy (field json ''params'') then field json ''params'' else JArr [])"

text \<open>A channel is served when no allow-list is configured or the list holds it.\<close>

definition served :: "rpc_handler \<Rightarrow> string \<Rightarrow> bool" where
  "served h chan = (case enabledChannels h of None \<Rightarrow> True | Some cs \<Rightarrow> chan \<in> set cs)"

text \<open>
  For the examples: what \<open>JSON.parse\<close> does on three texts (\<open>null\<close> decodes to
  \<open>null\<close>, \<open>42\<close> to a number, and \<open>{oops\<close> is a syntax error; other texts are not
  used), a handler that adds two numbers and fails with a message on any other
  parameters, one that answers nothing, one that fails with an empty message, one
  that rejects with \<open>null\<close>, a dispatcher with no allow-list and one that serves the
  channel \<open>rpc\<close> only, and payloads with and without an \<open>id\<close>.
\<close>

definition JSON_parse_sample :: "string \<Rightarrow> jsval option" where
  "JSON_parse_sample text =
     (if text = ''null'' then Some JNull
      else if text = ''42'' then Some (JNum 42)
      else None)"

definition calc_add :: "jsval \<Rightarrow> outcome" where
  "calc_add params =
     (case params of
        JArr [JNum a, JNum b] \<Rightarrow> Returns (JNum (a + b))
      | _ \<Rightarrow> Throws (js_Error ''add requires exactly 2 numeric parameters''))"

definition example_tools :: "string \<Rightarrow> tool option" where
  "example_tools m =
     (let md = \<lparr> md_description = '''', md_priceInTNK = ''0'', md_category = ''general'',
                  md_serviceId = m \<rparr>
      in if m = ''calc.add'' then Some \<lparr> handler = calc_add, metadata = md \<rparr>
         else if m = ''log.flush''
           then Some \<lparr> handler = (\<lambda>params. Returns JUndefined), metadata = md \<rparr>
         else if m = ''fail.silent''
           then Some \<lparr> handler = (\<lambda>params. Throws (js_Error '''')), metadata = md \<rparr>
         else if m = ''fail.null''
           then Some \<lparr> handler = (\<lambda>params. Throws JNull), metadata = md \<rparr>
         else None)"

definition open_handler :: rpc_handler where
  "open_handler = \<lparr> tools = example_tools, enabledChannels = None \<rparr>"

definition gated_handler :: rpc_handler where
  "gated_handler = \<lparr> tools = example_tools, enabledChannels = Some [''rpc''] \<rparr>"

definition rpc_payload :: "string \<Rightarrow> jsval \<Rightarrow> jsval \<Rightarrow> jsval" where
  "rpc_payload m params i =
     JObj [(''jsonrpc'', JStr ''2.0''), (''method'', JStr m), (''params'', params), (''id'', i)]"

definition notification_payload :: "string \<Rightarrow> jsval \<Rightarrow> jsval" where
  "notification_payload m params =
     JObj [(''jsonrpc'', JStr ''2.0''), (''method'', JStr m), (''params'', params)]"

section \<open>The canonical codec (\<open>stableStringify\<close>)\<close>

text \<open>\<open>Array.prototype.join\<close> on strings.\<close>

fun join :: "string \<Rightarrow> string list \<Rightarrow> string" where
  "join sep [] = []"
| "join sep [x] = x"
| "join sep (x # y # ys) = x @ sep @ join sep (y # ys)"

text \<open>
  \<open>J\<close> is the platform's \<open>JSON.stringify\<close>, which the function calls on numbers,
  booleans and strings, and on the keys. \<open>Object.keys(value).sort()\<close> orders the keys
  by their code units, which is the lexicographic order of \<open>string\<close>.
\<close>

lemma size_field_less: "size (field (JObj kvs) key) < size (JObj kvs)"
proof (cases "map_of kvs key")
  case None
  then show ?thesis by simp
next
  case (Some v)
  then have "(key, v) \<in> set kvs" by (rule map_of_SomeD)
  then have "size v < Suc (size_list (size_prod (\<lambda>_. 0) size) kvs)"
    by (induction kvs) auto
  with Some show ?thesis by simp
qed

function (sequential) stableStringify :: "(jsval \<Rightarrow> string) \<Rightarrow> jsval \<Rightarrow> string" where
  "stableStringify J JNull = ''null''"
| "stableStringify J JUndefined = ''null''"
| "stableStringify J (JArr xs) = ''['' @ join '','' (map (stableStringify J) xs) @ '']''"
| "stableStringify J (JObj kvs) =
     (let keys = sort (map fst kvs) in
      ''{'' @ join '','' (map (\<lambda>key. J (JStr key) @ '':'' @ stableStringify J (field (JObj kvs) key))
                              keys) @ ''}'')"
| "stableStringify J v = J v"
  by pat_completeness auto
termination
proof (relation "measure (\<lambda>(J, v). size v)")
  show "wf (measure (\<lambda>(J, v). size v))" by simp
next
  fix J :: "jsval \<Rightarrow> string" and xs :: "jsval list" and x
  assume "x \<in> set xs"
  then have "size x < Suc (size_list size xs)"
    by (induction xs) auto
  then show "((J, x), J, JArr xs) \<in> measure (\<lambda>(J, v). size v)" by simp
next
  fix J :: "jsval \<Rightarrow> string" and kvs :: "(string \<times> jsval) list" and keys :: "string list" and key
  show "((J, field (JObj kvs) key), J, JObj kvs) \<in> measure (\<lambda>(J, v). size v)"
    using size_field_less [of kvs key] by simp
qed

text \<open>
  Structural equality of two values, as the specification means it: arrays with
  structurally equal elements in the same order, objects with the same keys and
  structurally equal values under each key, whatever the order of insertion; anything
  else only when equal. \<open>keys_distinct\<close> says that a value is built of objects that
  hold each key once, as every object does.
\<close>

lemma size_elem_less: "x \<in> set xs \<Longrightarrow> size x < size (JArr xs)"
proof -
  assume "x \<in> set xs"
  then have "size x < Suc (size_list size xs)" by (induction xs) auto
  then show ?thesis by simp
qed

function (sequential) struct_eq :: "jsval \<Rightarrow> jsval \<Rightarrow> bool" where
  "struct_eq (JArr xs) (JArr ys) = list_all2 struct_eq xs ys"
| "struct_eq (JObj kvs) (JObj kvs') =
     (set (map fst kvs) = set (map fst kvs') \<and>
      list_all (\<lambda>key. struct_eq (field (JObj kvs) key) (field (JObj kvs') key)) (map fst kvs))"
| "struct_eq v w = (v = w)"
  by pat_completeness auto
termination
proof (relation "measure (\<lambda>(v, w). size v)")
  show "wf (measure (\<lambda>(v, w). size v))" by simp
next
  fix xs ys :: "jsval list" and x y
  assume "x \<in> set xs"
  then show "((x, y), JArr xs, JArr ys) \<in> measure (\<lambda>(v, w). size v)"
    using size_elem_less [of x xs] by simp
next
  fix kvs kvs' :: "(string \<times> jsval) list" and key
  show "((field (JObj kvs) key, field (JObj kvs') key), JObj kvs, JObj kvs')
          \<in> measure (\<lambda>(v, w). size v)"
    using size_field_less [of kvs key] by simp
qed

function (sequential) keys_distinct :: "jsval \<Rightarrow> bool" where
  "keys_distinct (JArr xs) = list_all keys_distinct xs"
| "keys_distinct (JObj kvs) =
     (distinct (map fst kvs) \<and>
      list_all (\<lambda>key. keys_distinct (field (JObj kvs) key)) (map fst kvs))"
| "keys_distinct v = True"
  by pat_completeness auto
termination
proof (relation "measure size")
  show "wf (measure size)" by simp
next
  fix xs :: "jsval list" and x
  assume "x \<in> set xs"
  then show "(x, JArr xs) \<in> measure size"
    using size_elem_less [of x xs] by simp
next
  fix kvs :: "(string \<times> jsval) list" and key
  show "(field (JObj kvs) key, JObj kvs) \<in> measure size"
    using size_field_less [of kvs key] by simp
qed

text \<open>
  For the examples: what \<open>JSON.stringify\<close> gives for a boolean, an integer and a text
  that needs no escape, and the two objects of the specification's example, alone and
  inside larger values.
\<close>

fun show_nat :: "nat \<Rightarrow> string" where
  "show_nat n =
     (if n < 10 then [char_of (48 + n)]
      else show_nat (n div 10) @ [char_of (48 + n mod 10)])"

definition show_int :: "int \<Rightarrow> string" where
  "show_int i = (if i < 0 then ''-'' @ show_nat (nat (- i)) else show_nat (nat i))"

definition JSON_stringify_sample :: "jsval \<Rightarrow> string" where
  "JSON_stringify_sample v =
     (case v of
        JBool b \<Rightarrow> (if b then ''true'' else ''false'')
      | JNum n \<Rightarrow> show_int n
      | JStr s \<Rightarrow> [CHR 0x22] @ s @ [CHR 0x22]
      | _ \<Rightarrow> ''null'')"

declare show_nat.simps [simp del]

definition obj_ba :: jsval where
  "obj_ba = JObj [(''b'', JNum 2), (''a'', JNum 1)]"

definition obj_ab :: jsval where
  "obj_ab = JObj [(''a'', JNum 1), (''b'', JNum 2)]"

definition nested_1 :: jsval where
  "nested_1 =
     JObj [(''payload'', JObj [(''nonce'', JStr ''k3''), (''channel'', JStr ''lobby'')]),
           (''list'', JArr [JNull, obj_ba, JBool True])]"

definition nested_2 :: jsval where
  "nested_2 =
     JObj [(''list'', JArr [JNull, obj_ab, JBool True]),
           (''payload'', JObj [(''channel'', JStr ''lobby''), (''nonce'', JStr ''k3'')])]"

section \<open>Invite issuance (the \<open>/sc_invite\<close> command)\<close>

text \<open>
  The numbers of the command (the TTL, the timestamps) are JavaScript numbers, that is
  doubles: a product can overflow to \<open>Infinity\<close>, a sum is rounded. The command's
  arithmetic is therefore kept as the platform's: \<open>'n\<close> is the type of numbers and
  \<open>number_ops\<close> holds the operations the command applies to them, each named after the
  JavaScript it stands for.
\<close>

record 'n number_ops =
  num_parseInt :: "string \<Rightarrow> 'n"         \<comment> \<open>\<open>Number.parseInt(text, 10)\<close>\<close>
  num_isFinite :: "'n \<Rightarrow> bool"           \<comment> \<open>\<open>Number.isFinite(x)\<close>\<close>
  num_max :: "'n \<Rightarrow> 'n \<Rightarrow> 'n"            \<comment> \<open>\<open>Math.max(x, y)\<close>\<close>
  num_times :: "'n \<Rightarrow> 'n \<Rightarrow> 'n"          \<comment> \<open>\<open>x * y\<close>\<close>
  num_plus :: "'n \<Rightarrow> 'n \<Rightarrow> 'n"           \<comment> \<open>\<open>x + y\<close>\<close>
  num_less_eq :: "'n \<Rightarrow> 'n \<Rightarrow> bool"      \<comment> \<open>\<open>x <= y\<close>\<close>
  num_greater :: "'n \<Rightarrow> 'n \<Rightarrow> bool"      \<comment> \<open>\<open>x > y\<close>\<close>
  num_falsy :: "'n \<Rightarrow> bool"              \<comment> \<open>\<open>!x\<close>\<close>
  num_of_int :: "int \<Rightarrow> 'n"              \<comment> \<open>the literals \<open>0\<close>, \<open>1\<close> and \<open>1000\<close>\<close>

record 'n invite_payload =
  ip_channel :: string
  inviteePubKey :: string
  inviterPubKey :: string
  inviterAddress :: "string option"
  issuedAt :: 'n
  expiresAt :: 'n
  nonce :: string
  version :: 'n

record 'n invite =
  inv_payload :: "'n invite_payload"
  inv_sig :: string
  inv_welcome :: jsval

text \<open>
  What the command reads from outside this file, as it stands when the command runs:
  \<^item> \<open>cmd_args\<close>: the answer of \<open>this.parseArgs(input)\<close>, an option's text by its name;
  \<^item> \<open>has_sidechannel\<close>: whether \<open>this.peer.sidechannel\<close> is set, and \<open>inviteTtlMs\<close>: its
    \<open>inviteTtlMs\<close> when that is a number (\<open>None\<close>: it is \<open>undefined\<close> or no number);
  \<^item> \<open>walletPubKey\<close>: the wallet's public key as lowercase hex (\<open>None\<close>: no key);
  \<^item> \<open>msbAddress\<close>: the address \<open>msbClient.pubKeyHexToAddress\<close> gives (\<open>None\<close>: \<open>null\<close>);
  \<^item> \<open>date_now\<close>: \<open>Date.now()\<close>, and \<open>random_nonce\<close>: the text drawn from \<open>Math.random()\<close>;
  \<^item> \<open>sign_payload\<close>: the hex signature the command obtains for a payload. The command
    signs the text \<open>stableStringify(payload)\<close>, by \<open>wallet.sign\<close> or else by
    \<open>PeerWallet.sign\<close> with the wallet's secret key; that text is a function of the
    payload, and so is the signature; it is empty when neither call gives one;
  \<^item> \<open>parseWelcome\<close>: \<open>parseWelcomeArg\<close>, and \<open>getWelcome\<close>: the sidechannel's stored
    welcome of a channel (\<open>JNull\<close> when there is none);
  \<^item> \<open>trimLower\<close>: \<open>.trim().toLowerCase()\<close>.
\<close>

record 'n peer_env =
  cmd_args :: "string \<Rightarrow> string option"
  has_sidechannel :: bool
  inviteTtlMs :: "'n option"
  walletPubKey :: "string option"
  msbAddress :: "string \<Rightarrow> string option"
  date_now :: 'n
  random_nonce :: string
  sign_payload :: "'n invite_payload \<Rightarrow> string"
  parseWelcome :: "string \<Rightarrow> jsval"
  getWelcome :: "string \<Rightarrow> jsval"
  trimLower :: "string \<Rightarrow> string"

text \<open>\<open>a || b\<close> and \<open>!a\<close> on option texts (\<open>undefined\<close> and the empty text are falsy),
  and \<open>String(a)\<close>.\<close>

definition js_or :: "string option \<Rightarrow> string option \<Rightarrow> string option" where
  "js_or a b = (case a of None \<Rightarrow> b | Some x \<Rightarrow> if x = [] then b else a)"

definition falsy_text :: "string option \<Rightarrow> bool" where
  "falsy_text a = (case a of None \<Rightarrow> True | Some x \<Rightarrow> x = [])"

definition String_of :: "string option \<Rightarrow> string" where
  "String_of a = (case a of None \<Rightarrow> ''undefined'' | Some x \<Rightarrow> x)"

text \<open>\<open>normalizeInvitePayload\<close>, on the object the command builds: its texts are set,
  so no default applies to them; \<open>Number(x)\<close> of a number is that number; the version
  is kept when it is finite and is 1 otherwise.\<close>

definition normalizeInvitePayload ::
  "'n number_ops \<Rightarrow> (string \<Rightarrow> string) \<Rightarrow> 'n invite_payload \<Rightarrow> 'n invite_payload" where
  "normalizeInvitePayload ops norm p =
     \<lparr> ip_channel = ip_channel p,
       inviteePubKey = norm (inviteePubKey p),
       inviterPubKey = norm (inviterPubKey p),
       inviterAddress = inviterAddress p,
       issuedAt = issuedAt p,
       expiresAt = expiresAt p,
       nonce = nonce p,
       version = (if num_isFinite ops (version p) then version p else num_of_int ops 1) \<rparr>"

text \<open>The TTL in milliseconds as the command computes it: \<open>None\<close> is \<open>null\<close>.\<close>

definition invite_ttlMs :: "'n number_ops \<Rightarrow> 'n peer_env \<Rightarrow> string option \<Rightarrow> 'n option" where
  "invite_ttlMs ops env ttlRaw =
     (case ttlRaw of
        Some raw \<Rightarrow>
          (let ttlSec = num_parseInt ops raw in
           if num_isFinite ops ttlSec
           then Some (num_times ops (num_max ops ttlSec (num_of_int ops 0)) (num_of_int ops 1000))
           else None)
      | None \<Rightarrow>
          (case inviteTtlMs env of
             Some d \<Rightarrow>
               if num_isFinite ops d \<and> num_greater ops d (num_of_int ops 0) then Some d
               else Some (num_of_int ops 0)
           | None \<Rightarrow> Some (num_of_int ops 0)))"

text \<open>What the command prints: one of its messages, or the invite.\<close>

datatype 'n invite_output =
    Usage                     \<comment> \<open>\<open>'Usage: /sc_invite ...'\<close>\<close>
  | SidechannelNotInitialized \<comment> \<open>\<open>'Sidechannel not initialized.'\<close>\<close>
  | WalletNotReady            \<comment> \<open>\<open>'Wallet not ready; cannot sign invite.'\<close>\<close>
  | TtlRequired               \<comment> \<open>\<open>'Invite TTL is required. Pass --ttl <sec> or set --sidechannel-invite-ttl.'\<close>\<close>
  | InvalidWelcome            \<comment> \<open>\<open>'Invalid welcome. Pass JSON, base64, or @file.'\<close>\<close>
  | SignFailed                \<comment> \<open>\<open>'Failed to sign invite; wallet secret key unavailable.'\<close>\<close>
  | InviteIssued "'n invite"

text \<open>The options of the command: \<open>args.channel || args.ch || args.name\<close> and the
  like.\<close>

definition channel_arg :: "'n peer_env \<Rightarrow> string option" where
  "channel_arg env =
     js_or (js_or (cmd_args env ''channel'') (cmd_args env ''ch'')) (cmd_args env ''name'')"

definition invitee_arg :: "'n peer_env \<Rightarrow> string option" where
  "invitee_arg env =
     js_or (js_or (js_or (cmd_args env ''pubkey'') (cmd_args env ''invitee''))
              (cmd_args env ''peer''))
       (cmd_args env ''key'')"

definition ttl_arg :: "'n peer_env \<Rightarrow> string option" where
  "ttl_arg env =
     js_or (js_or (cmd_args env ''ttl'') (cmd_args env ''ttl_sec'')) (cmd_args env ''ttl_s'')"

definition welcome_arg :: "'n peer_env \<Rightarrow> string option" where
  "welcome_arg env =
     js_or (js_or (cmd_args env ''welcome'') (cmd_args env ''welcome_b64''))
       (cmd_args env ''welcomebase64'')"

definition sc_invite :: "'n number_ops \<Rightarrow> 'n peer_env \<Rightarrow> 'n invite_output" where
  "sc_invite ops env =
     (let chan = channel_arg env;
          invitee = invitee_arg env;
          ttlRaw = ttl_arg env;
          welcomeArg = welcome_arg env
      in
      if falsy_text chan \<or> falsy_text invitee then Usage
      else if \<not> has_sidechannel env then SidechannelNotInitialized
      else
        (case walletPubKey env of
           None \<Rightarrow> WalletNotReady
         | Some inviterKey \<Rightarrow>
             if inviterKey = [] then WalletNotReady
             else
               (let inviterAddr = msbAddress env inviterKey;
                    issued = date_now env
                in
                (case invite_ttlMs ops env ttlRaw of
                   None \<Rightarrow> TtlRequired
                 | Some ttlMs \<Rightarrow>
                     if num_falsy ops ttlMs \<or> num_less_eq ops ttlMs (num_of_int ops 0)
                     then TtlRequired
                     else
                       (let expires = num_plus ops issued ttlMs;
                            p = normalizeInvitePayload ops (trimLower env)
                                  \<lparr> ip_channel = String_of chan,
                                    inviteePubKey = trimLower env (String_of invitee),
                                    inviterPubKey = inviterKey,
                                    inviterAddress = inviterAddr,
                                    issuedAt = issued,
                                    expiresAt = expires,
                                    nonce = random_nonce env,
                                    version = num_of_int ops 1 \<rparr>;
                            sigHex = sign_payload env p;
                            w = (if \<not> falsy_text welcomeArg
                                 then parseWelcome env (String_of welcomeArg)
                                 else getWelcome env (String_of chan))
                        in
                        if \<not> falsy_text welcomeArg \<and> \<not> truthy w then InvalidWelcome
                        else if sigHex = [] then SignFailed
                        else InviteIssued \<lparr> inv_payload = p, inv_sig = sigHex,
                                            inv_welcome = (if truthy w then w else JUndefined) \<rparr>)))))"

text \<open>The command has what it needs to sign an invite: a channel and an invitee are
  given, the sidechannel is set and the wallet has a public key.\<close>

definition invite_ready :: "'n peer_env \<Rightarrow> bool" where
  "invite_ready env =
     (\<not> falsy_text (channel_arg env) \<and> \<not> falsy_text (invitee_arg env)
      \<and> has_sidechannel env \<and> \<not> falsy_text (walletPubKey env))"

subsection \<open>Doubles that are whole numbers\<close>

text \<open>
  To run the command on concrete input: the doubles whose value is a whole number,
  the two infinities and \<open>NaN\<close>, with the arithmetic of IEEE 754 binary64 on them. A
  double has 53 significant bits; \<open>round_int\<close> rounds a whole number to the nearest
  such, ties to the even one, and to an infinity from \<open>2^1024 - 2^970\<close> on. A sum or a
  product of whole numbers is the rounded exact sum or product. (\<open>Fin 0\<close> stands for
  both zeros, whose sign the command never reads.)
\<close>

datatype dnum = Fin int | PosInf | NegInf | NaN

function bit_length :: "int \<Rightarrow> int" where
  "bit_length n = (if n \<le> 0 then 0 else 1 + bit_length (n div 2))"
  by pat_completeness auto
termination
  by (relation "measure nat") auto

declare bit_length.simps [simp del]

function pow2 :: "int \<Rightarrow> int" where
  "pow2 k = (if k \<le> 0 then 1 else 2 * pow2 (k - 1))"
  by pat_completeness auto
termination
  by (relation "measure nat") auto

declare pow2.simps [simp del]

definition round_int :: "int \<Rightarrow> dnum" where
  "round_int n =
     (let a = \<bar>n\<bar>;
          s = bit_length a - 53
      in if s \<le> 0 then Fin n
         else
           (let p = pow2 s;
                q = a div p;
                r = a mod p;
                half = p div 2;
                m = (if r > half \<or> (r = half \<and> odd q) then q + 1 else q);
                v = m * p
            in if v \<ge> pow2 1024 then (if n < 0 then NegInf else PosInf)
               else Fin (if n < 0 then - v else v)))"

fun dsign :: "dnum \<Rightarrow> int" where
  "dsign (Fin n) = sgn n"
| "dsign PosInf = 1"
| "dsign NegInf = - 1"
| "dsign NaN = 0"

fun dtimes :: "dnum \<Rightarrow> dnum \<Rightarrow> dnum" where
  "dtimes NaN y = NaN"
| "dtimes x NaN = NaN"
| "dtimes (Fin a) (Fin b) = round_int (a * b)"
| "dtimes x y =
     (if dsign x * dsign y = 0 then NaN else if dsign x * dsign y > 0 then PosInf else NegInf)"

fun dplus :: "dnum \<Rightarrow> dnum \<Rightarrow> dnum" where
  "dplus NaN y = NaN"
| "dplus x NaN = NaN"
| "dplus (Fin a) (Fin b) = round_int (a + b)"
| "dplus PosInf NegInf = NaN"
| "dplus NegInf PosInf = NaN"
| "dplus (Fin a) y = y"
| "dplus x y = x"

fun dless_eq :: "dnum \<Rightarrow> dnum \<Rightarrow> bool" where
  "dless_eq NaN y = False"
| "dless_eq x NaN = False"
| "dless_eq (Fin a) (Fin b) = (a \<le> b)"
| "dless_eq NegInf y = True"
| "dless_eq x PosInf = True"
| "dless_eq x y = False"

definition dgreater :: "dnum \<Rightarrow> dnum \<Rightarrow> bool" where
  "dgreater x y = (x \<noteq> NaN \<and> y \<noteq> NaN \<and> \<not> dless_eq x y)"

definition dmax :: "dnum \<Rightarrow> dnum \<Rightarrow> dnum" where
  "dmax x y = (if x = NaN \<or> y = NaN then NaN else if dless_eq x y then y else x)"

text \<open>\<open>Number.parseInt(text, 10)\<close> on a text of blanks, a sign and decimal digits
  followed by anything: the double nearest to the number the digits write, and \<open>NaN\<close>
  when there is no digit.\<close>

definition is_digit :: "char \<Rightarrow> bool" where
  "is_digit c = (48 \<le> (of_char c :: int) \<and> (of_char c :: int) \<le> 57)"

definition dparseInt :: "string \<Rightarrow> dnum" where
  "dparseInt s =
     (let t = dropWhile (\<lambda>c. c = CHR '' '') s;
          neg = (case t of c # r \<Rightarrow> c = CHR ''-'' | [] \<Rightarrow> False);
          u = (case t of c # r \<Rightarrow> if c = CHR ''-'' \<or> c = CHR ''+'' then r else t | [] \<Rightarrow> t);
          ds = takeWhile is_digit u;
          n = foldl (\<lambda>a c. 10 * a + (of_char c - 48)) (0 :: int) ds
      in if ds = [] then NaN else round_int (if neg then - n else n))"

definition double_ops :: "dnum number_ops" where
  "double_ops =
     \<lparr> num_parseInt = dparseInt,
       num_isFinite = (\<lambda>x. case x of Fin n \<Rightarrow> True | _ \<Rightarrow> False),
       num_max = dmax,
       num_times = dtimes,
       num_plus = dplus,
       num_less_eq = dless_eq,
       num_greater = dgreater,
       num_falsy = (\<lambda>x. x = Fin 0 \<or> x = NaN),
       num_of_int = round_int \<rparr>"

text \<open>
  For the examples: a peer whose command line names the channel \<open>lobby\<close> and the
  invitee \<open>AB12\<close>, with the TTL option and the configured default as given; the TTL
  text that writes \<open>10^306\<close> (a 1 and 306 zeros); and the invites the peer prints.
\<close>

definition example_env :: "string option \<Rightarrow> dnum option \<Rightarrow> dnum peer_env" where
  "example_env ttl dflt =
     \<lparr> cmd_args = (\<lambda>name. if name = ''channel'' then Some ''lobby''
                          else if name = ''pubkey'' then Some ''AB12''
                          else if name = ''ttl'' then ttl
                          else None),
       has_sidechannel = True,
       inviteTtlMs = dflt,
       walletPubKey = Some ''c0ffee'',
       msbAddress = (\<lambda>key. None),
       date_now = Fin 1700000000000,
       random_nonce = ''k3x9q2ab'',
       sign_payload = (\<lambda>p. ''5e1f''),
       parseWelcome = (\<lambda>text. JNull),
       getWelcome = (\<lambda>chan. JNull),
       trimLower = (\<lambda>text. if text = ''AB12'' then ''ab12'' else text) \<rparr>"

definition huge_ttl :: string where
  "huge_ttl = CHR ''1'' # replicate 306 (CHR ''0'')"

definition example_invite :: "dnum \<Rightarrow> dnum invite" where
  "example_invite expires =
     \<lparr> inv_payload =
         \<lparr> ip_channel = ''lobby'', inviteePubKey = ''ab12'', inviterPubKey = ''c0ffee'',
           inviterAddress = None, issuedAt = Fin 1700000000000, expiresAt = expires,
           nonce = ''k3x9q2ab'', version = Fin 1 \<rparr>,
       inv_sig = ''5e1f'', inv_welcome = JUndefined \<rparr>"

section \<open>Properties of the service registry\<close>

subsection \<open>Keys and single steps\<close>

text \<open>The three families of keys never collide: a write under one of them leaves the
  others as they were.\<close>

lemma serviceKey_inj [simp]: "(serviceKey a = serviceKey b) = (a = b)"
  by (simp add: serviceKey_def)

lemma serviceKey_not_index [simp]:
  "serviceKey a \<noteq> ''services_index''" "''services_index'' \<noteq> serviceKey a"
  by (auto simp: serviceKey_def)

lemma serviceKey_not_providerKey [simp]:
  "serviceKey a \<noteq> providerKey b" "providerKey b \<noteq> serviceKey a"
  by (auto simp: serviceKey_def providerKey_def)

lemma providerKey_not_index [simp]:
  "providerKey a \<noteq> ''services_index''" "''services_index'' \<noteq> providerKey a"
  by (auto simp: providerKey_def)

lemma get_put [simp]: "get (put s k v) k' = (if k' = k then Some v else get s k')"
  by (simp add: get_def put_def)

lemma active_set [simp]:
  "active (set_description d sv) = active sv"
  "active (set_priceInTNK p sv) = active sv"
  "active (set_category c sv) = active sv"
  "active (set_active b sv) = b"
  by (simp_all add: set_description_def set_priceInTNK_def set_category_def set_active_def)

lemma serviceId_set [simp]:
  "serviceId (set_description d sv) = serviceId sv"
  "serviceId (set_priceInTNK p sv) = serviceId sv"
  "serviceId (set_category c sv) = serviceId sv"
  "serviceId (set_active b sv) = serviceId sv"
  by (simp_all add: set_description_def set_priceInTNK_def set_category_def set_active_def)

text \<open>The definitions a concrete history is evaluated with.\<close>

lemmas eval_registry =
  example_calls_def empty_store_def registerService_def updateService_def removeService_def
  Let_def get_def put_def serviceKey_def providerKey_def or_empty_def inactive_at_def
  set_active_def set_description_def set_priceInTNK_def set_category_def

subsection \<open>An inactive record stays inactive\<close>

lemma updateService_inactive:
  "inactive_at s k \<Longrightarrow> inactive_at (snd (updateService a sid d p c s)) k"
  by (cases "k = sid")
     (auto simp: inactive_at_def updateService_def Let_def split: option.splits val.splits)

lemma removeService_inactive:
  "inactive_at s k \<Longrightarrow> inactive_at (snd (removeService a sid s)) k"
  by (cases "k = sid")
     (auto simp: inactive_at_def removeService_def Let_def split: option.splits val.splits)

lemma registerService_inactive:
  "inactive_at s k \<Longrightarrow> inactive_at (snd (registerService a sid m d p c s)) k"
  by (cases "k = sid")
     (auto simp: inactive_at_def registerService_def Let_def split: option.splits val.splits)

lemma call_inactive: "inactive_at s k \<Longrightarrow> inactive_at (snd (call c s)) k"
  by (cases c)
     (simp_all add: registerService_inactive updateService_inactive removeService_inactive)

lemma run_inactive: "inactive_at s k \<Longrightarrow> inactive_at (run cs s) k"
  by (induction cs arbitrary: s) (simp_all add: call_inactive)

lemma inactive_at_present: "inactive_at s sid \<Longrightarrow> get s (serviceKey sid) \<noteq> None"
  by (auto simp: inactive_at_def split: option.splits)

lemma call_present:
  "get s (serviceKey k) \<noteq> None \<Longrightarrow> get (snd (call c s)) (serviceKey k) \<noteq> None"
proof (cases c)
  case (Register a sid m d p ca)
  then show "get s (serviceKey k) \<noteq> None \<Longrightarrow> ?thesis"
    by (cases "k = sid") (auto simp: registerService_def Let_def)
next
  case (Update a sid d p ca)
  then show "get s (serviceKey k) \<noteq> None \<Longrightarrow> ?thesis"
    by (cases "k = sid")
       (auto simp: updateService_def Let_def split: option.splits val.splits)
next
  case (Remove a sid)
  then show "get s (serviceKey k) \<noteq> None \<Longrightarrow> ?thesis"
    by (cases "k = sid")
       (auto simp: removeService_def Let_def split: option.splits val.splits)
qed

lemma run_present:
  "get s (serviceKey k) \<noteq> None \<Longrightarrow> get (run cs s) (serviceKey k) \<noteq> None"
proof (induction cs arbitrary: s)
  case Nil
  then show ?case by simp
next
  case (Cons c cs)
  from Cons.prems have "get (snd (call c s)) (serviceKey k) \<noteq> None"
    by (rule call_present)
  then have "get (run cs (snd (call c s))) (serviceKey k) \<noteq> None"
    by (rule Cons.IH)
  then show ?case by simp
qed

lemma call_absent_not_inactive:
  "get s (serviceKey k) = None \<Longrightarrow> \<not> inactive_at (snd (call c s)) k"
proof (cases c)
  case (Register a sid m d p ca)
  then show "get s (serviceKey k) = None \<Longrightarrow> ?thesis"
    by (cases "k = sid") (auto simp: inactive_at_def registerService_def Let_def)
next
  case (Update a sid d p ca)
  then show "get s (serviceKey k) = None \<Longrightarrow> ?thesis"
    by (cases "k = sid")
       (auto simp: inactive_at_def updateService_def Let_def split: option.splits val.splits)
next
  case (Remove a sid)
  then show "get s (serviceKey k) = None \<Longrightarrow> ?thesis"
    by (cases "k = sid")
       (auto simp: inactive_at_def removeService_def Let_def split: option.splits val.splits)
qed

subsection \<open>The index stays consistent\<close>

lemma index_consistent_empty: "index_consistent empty_store"
  by (simp add: index_consistent_def empty_store_def get_def)

lemma registerService_consistent:
  "index_consistent s \<Longrightarrow> index_consistent (snd (registerService a sid m d p c s))"
  by (auto simp: index_consistent_def registerService_def Let_def or_empty_def list_all_iff
           split: option.splits val.splits if_splits)

lemma updateService_consistent:
  "index_consistent s \<Longrightarrow> index_consistent (snd (updateService a sid d p c s))"
  by (auto simp: index_consistent_def updateService_def Let_def or_empty_def list_all_iff
           split: option.splits val.splits if_splits)

lemma removeService_consistent:
  "index_consistent s \<Longrightarrow> index_consistent (snd (removeService a sid s))"
  by (auto simp: index_consistent_def removeService_def Let_def or_empty_def list_all_iff
           split: option.splits val.splits if_splits)

lemma call_consistent: "index_consistent s \<Longrightarrow> index_consistent (snd (call c s))"
  by (cases c)
     (simp_all add: registerService_consistent updateService_consistent
        removeService_consistent)

lemma run_consistent: "index_consistent s \<Longrightarrow> index_consistent (run cs s)"
  by (induction cs arbitrary: s) (simp_all add: call_consistent)

subsection \<open>Reading after a removal\<close>

lemma collectActive_set:
  "sv \<in> set (collectActive s ids acc) \<Longrightarrow>
     sv \<in> set acc \<or>
     (\<exists>k. k \<in> set ids \<and> get s (serviceKey k) = Some (VService sv) \<and> active sv)"
proof (induction ids arbitrary: acc)
  case Nil
  then show ?case by simp
next
  case (Cons k ids)
  show ?case
  proof (cases "get s (serviceKey k)")
    case None
    with Cons.prems have "sv \<in> set (collectActive s ids acc)" by simp
    from Cons.IH [OF this] show ?thesis by auto
  next
    case (Some v)
    show ?thesis
    proof (cases v)
      case (VService x)
      show ?thesis
      proof (cases "active x")
        case True
        with Cons.prems Some VService
        have "sv \<in> set (collectActive s ids (acc @ [x]))" by simp
        from Cons.IH [OF this] Some VService True show ?thesis by auto
      next
        case False
        with Cons.prems Some VService have "sv \<in> set (collectActive s ids acc)" by simp
        from Cons.IH [OF this] show ?thesis by auto
      qed
    next
      case (VNum n)
      with Cons.prems Some have "sv \<in> set (collectActive s ids acc)" by simp
      from Cons.IH [OF this] show ?thesis by auto
    next
      case (VArr xs)
      with Cons.prems Some have "sv \<in> set (collectActive s ids acc)" by simp
      from Cons.IH [OF this] show ?thesis by auto
    qed
  qed
qed

lemma removeService_success:
  assumes "removeService a sid s = (None, s')"
  shows "\<exists>sv. get s (serviceKey sid) = Some (VService sv) \<and> providerAddress sv = a
           \<and> get s' (serviceKey sid) = Some (VService (set_active False sv))
           \<and> (\<forall>k. k \<noteq> sid \<longrightarrow> get s' (serviceKey k) = get s (serviceKey k))
           \<and> get s' ''services_index'' =
               (case or_empty (get s ''services_index'') of
                  VArr idx \<Rightarrow> Some (VArr (filter (\<lambda>i. i \<noteq> sid) idx))
                | _ \<Rightarrow> get s ''services_index'')"
  using assms
  by (auto simp: removeService_def Let_def split: option.splits val.splits if_splits)

subsection \<open>The claims about the registry\<close>

text \<open>
  C1 (as the code has it). Let the index be consistent and let \<open>removeService\<close> succeed
  on an id. Then \<open>listServices\<close> answers a list that holds no service of that id; the
  record is still stored under the id's key, the same record with \<open>active\<close> set to
  false; and \<open>getServiceById\<close> on the id, which shows active records only, prints
  \<open>'Service not found or inactive'\<close> and not the record.
\<close>

theorem removeService_then_reads:
  assumes cons: "index_consistent s"
    and rem: "removeService address sid s = (None, s')"
  shows "(\<exists>svs. listServices s' = Inr svs \<and> sid \<notin> set (map serviceId svs))
       \<and> (\<exists>sv. get s (serviceKey sid) = Some (VService sv)
                \<and> get s' (serviceKey sid) = Some (VService (set_active False sv))
                \<and> \<not> active (set_active False sv))
       \<and> getServiceById sid s' = NotFoundOrInactive sid"
proof -
  from removeService_success [OF rem] obtain sv where
    old: "get s (serviceKey sid) = Some (VService sv)" and
    new: "get s' (serviceKey sid) = Some (VService (set_active False sv))" and
    other: "\<And>k. k \<noteq> sid \<Longrightarrow> get s' (serviceKey k) = get s (serviceKey k)" and
    idx: "get s' ''services_index'' =
               (case or_empty (get s ''services_index'') of
                  VArr idx \<Rightarrow> Some (VArr (filter (\<lambda>i. i \<noteq> sid) idx))
                | _ \<Rightarrow> get s ''services_index'')"
    by blast
  define index where
    "index = (case get s ''services_index'' of Some (VArr xs) \<Rightarrow> xs | _ \<Rightarrow> [])"
  from cons have oe: "or_empty (get s ''services_index'') = VArr index"
    by (auto simp: index_consistent_def or_empty_def index_def split: option.splits val.splits)
  from cons have named:
    "\<And>k x. k \<in> set index \<Longrightarrow> get s (serviceKey k) = Some (VService x) \<Longrightarrow> serviceId x = k"
    by (auto simp: index_consistent_def index_def list_all_iff split: option.splits val.splits)
  from idx oe
  have "get s' ''services_index'' = Some (VArr (filter (\<lambda>i. i \<noteq> sid) index))"
    by simp
  then have ls: "listServices s' = Inr (collectActive s' (filter (\<lambda>i. i \<noteq> sid) index) [])"
    by (simp add: listServices_def or_empty_def)
  have "sid \<notin> set (map serviceId (collectActive s' (filter (\<lambda>i. i \<noteq> sid) index) []))"
  proof
    assume "sid \<in> set (map serviceId (collectActive s' (filter (\<lambda>i. i \<noteq> sid) index) []))"
    then obtain x where x: "x \<in> set (collectActive s' (filter (\<lambda>i. i \<noteq> sid) index) [])"
      and xid: "serviceId x = sid" by auto
    from collectActive_set [OF x] obtain k where
      k: "k \<in> set index" "k \<noteq> sid" "get s' (serviceKey k) = Some (VService x)" by auto
    from k other have "get s (serviceKey k) = Some (VService x)" by simp
    from named [OF k(1) this] xid k(2) show False by simp
  qed
  with ls have one: "\<exists>svs. listServices s' = Inr svs \<and> sid \<notin> set (map serviceId svs)"
    by blast
  from old new have two: "\<exists>sv. get s (serviceKey sid) = Some (VService sv)
                \<and> get s' (serviceKey sid) = Some (VService (set_active False sv))
                \<and> \<not> active (set_active False sv)" by simp
  from new have three: "getServiceById sid s' = NotFoundOrInactive sid"
    by (simp add: getServiceById_def)
  from one two three show ?thesis by blast
qed

theorem removeService_then_reads_witness:
  "index_consistent (run example_calls empty_store)
   \<and> fst (removeService ''alice'' ''calc'' (run example_calls empty_store)) = None
   \<and> (\<exists>svs. listServices (snd (removeService ''alice'' ''calc'' (run example_calls empty_store)))
               = Inr svs \<and> ''calc'' \<notin> set (map serviceId svs))
   \<and> (\<exists>sv. get (run example_calls empty_store) (serviceKey ''calc'') = Some (VService sv)
          \<and> get (snd (removeService ''alice'' ''calc'' (run example_calls empty_store)))
               (serviceKey ''calc'') = Some (VService (set_active False sv))
          \<and> \<not> active (set_active False sv))
   \<and> getServiceById ''calc'' (snd (removeService ''alice'' ''calc'' (run example_calls empty_store)))
       = NotFoundOrInactive ''calc''"
proof -
  let ?s = "run example_calls empty_store"
  have c: "index_consistent ?s"
    by (simp add: eval_registry index_consistent_def)
  have f: "fst (removeService ''alice'' ''calc'' ?s) = None"
    by (simp add: eval_registry)
  then have r: "removeService ''alice'' ''calc'' ?s = (None, snd (removeService ''alice'' ''calc'' ?s))"
    by (simp add: prod_eq_iff)
  from removeService_then_reads [OF c r] c f show ?thesis by blast
qed

text \<open>
  C1 as the specification words it fails: it says \<open>getServiceById\<close> on the removed id
  still returns the record. After \<open>alice\<close> removes her service \<open>calc\<close>, the function
  prints that the service is not found or inactive; before the removal it showed the
  record.
\<close>

theorem getServiceById_hides_removed_record:
  "fst (removeService ''alice'' ''calc'' (run example_calls empty_store)) = None
   \<and> getServiceById ''calc'' (snd (removeService ''alice'' ''calc'' (run example_calls empty_store)))
       = NotFoundOrInactive ''calc''
   \<and> getServiceById ''calc'' (run example_calls empty_store)
       = ServiceShown (Service ''calc'' ''calc.add'' ''adds two numbers'' ''1'' ''general''
           ''alice'' None True)"
  by (simp add: eval_registry getServiceById_def)

text \<open>
  C2. Whatever is stored under the key of a service id (a record, active or not),
  \<open>registerService\<close> on that id returns \<open>'Service already exists'\<close> and leaves the whole
  store as it was: the record, \<open>services_index\<close> and every provider index.
\<close>

theorem registerService_existing_id_rejected:
  assumes "get s (serviceKey sid) \<noteq> None"
  shows "registerService address sid meth descr price cat s = (Some AlreadyExists, s)"
  using assms by (simp add: registerService_def)

theorem registerService_existing_id_rejected_witness:
  "inactive_at (run (example_calls @ [Remove ''alice'' ''calc'']) empty_store) ''calc''
   \<and> get (run (example_calls @ [Remove ''alice'' ''calc'']) empty_store) (serviceKey ''calc'')
        \<noteq> None
   \<and> registerService ''bob'' ''calc'' ''calc.add'' ''again'' ''2'' None
        (run (example_calls @ [Remove ''alice'' ''calc'']) empty_store)
      = (Some AlreadyExists, run (example_calls @ [Remove ''alice'' ''calc'']) empty_store)
   \<and> get (run example_calls empty_store) (serviceKey ''echo'') \<noteq> None
   \<and> registerService ''alice'' ''echo'' ''text.echo'' '''' ''0'' None
        (run example_calls empty_store)
      = (Some AlreadyExists, run example_calls empty_store)"
proof -
  let ?s = "run (example_calls @ [Remove ''alice'' ''calc'']) empty_store"
  let ?t = "run example_calls empty_store"
  have i: "inactive_at ?s ''calc''" by (simp add: eval_registry)
  have h: "get ?s (serviceKey ''calc'') \<noteq> None" by (simp add: eval_registry)
  have k: "get ?t (serviceKey ''echo'') \<noteq> None" by (simp add: eval_registry)
  from i h k registerService_existing_id_rejected [OF h]
    registerService_existing_id_rejected [OF k]
  show ?thesis by simp
qed

text \<open>
  C3. \<open>updateService\<close> by a caller who is not the record's \<open>providerAddress\<close> returns
  \<open>'Not authorized'\<close> and leaves the store as it was; on an id with no record it returns
  \<open>'Service not found'\<close>; by the owner it rewrites the record with exactly the fields
  given (\<open>description\<close>, \<open>priceInTNK\<close>, \<open>category\<close>) replaced and every other field,
  and every field not given, as before.
\<close>

theorem updateService_cases:
  "(get s (serviceKey sid) = Some (VService sv) \<and> providerAddress sv \<noteq> address \<longrightarrow>
      updateService address sid descr price cat s = (Some Unauthorized, s))
   \<and> (get s (serviceKey sid) = None \<longrightarrow>
      updateService address sid descr price cat s = (Some NotFound, s))
   \<and> (get s (serviceKey sid) = Some (VService sv) \<and> providerAddress sv = address \<longrightarrow>
      updateService address sid descr price cat s =
        (None, put s (serviceKey sid)
           (VService (Service (serviceId sv) (methodName sv)
              (case descr of None \<Rightarrow> description sv | Some d \<Rightarrow> d)
              (case price of None \<Rightarrow> priceInTNK sv | Some p \<Rightarrow> p)
              (case cat of None \<Rightarrow> category sv | Some c \<Rightarrow> c)
              (providerAddress sv) (timestamp sv) (active sv)))))"
  by (cases sv) (simp add: updateService_def Let_def set_description_def set_priceInTNK_def
        set_category_def split: option.splits)

lemma calc_stored:
  "get (run example_calls empty_store) (serviceKey ''calc'') = Some (VService calc_service)"
  by (simp add: eval_registry calc_service_def)

theorem updateService_cases_witness:
  "get (run example_calls empty_store) (serviceKey ''calc'') = Some (VService calc_service)
   \<and> providerAddress calc_service \<noteq> ''bob''
   \<and> updateService ''bob'' ''calc'' (Some ''mine now'') None None (run example_calls empty_store)
       = (Some Unauthorized, run example_calls empty_store)
   \<and> get (run example_calls empty_store) (serviceKey ''none'') = None
   \<and> updateService ''alice'' ''none'' None (Some ''3'') None (run example_calls empty_store)
       = (Some NotFound, run example_calls empty_store)
   \<and> providerAddress calc_service = ''alice''
   \<and> updateService ''alice'' ''calc'' None (Some ''3'') None (run example_calls empty_store)
       = (None, put (run example_calls empty_store) (serviceKey ''calc'')
           (VService (Service ''calc'' ''calc.add'' ''adds two numbers'' ''3'' ''general''
              ''alice'' None True)))"
proof -
  let ?s = "run example_calls empty_store"
  note st = calc_stored
  have o: "providerAddress calc_service = ''alice''" by (simp add: calc_service_def)
  have n: "get ?s (serviceKey ''none'') = None" by (simp add: eval_registry)
  from updateService_cases [of ?s "''calc''" calc_service "''bob''" "Some ''mine now''" None None]
    st o
  have a: "updateService ''bob'' ''calc'' (Some ''mine now'') None None ?s
             = (Some Unauthorized, ?s)" by simp
  from updateService_cases [of ?s "''none''" calc_service "''alice''" None "Some ''3''" None] n
  have b: "updateService ''alice'' ''none'' None (Some ''3'') None ?s = (Some NotFound, ?s)"
    by simp
  from updateService_cases [of ?s "''calc''" calc_service "''alice''" None "Some ''3''" None]
    st o
  have c: "updateService ''alice'' ''calc'' None (Some ''3'') None ?s
       = (None, put ?s (serviceKey ''calc'')
           (VService (Service ''calc'' ''calc.add'' ''adds two numbers'' ''3'' ''general''
              ''alice'' None True)))"
    by (simp add: calc_service_def)
  from st o n a b c show ?thesis by simp
qed

text \<open>
  C4. The state of an id only moves from absent to active to inactive. Once the
  record of an id is inactive, it is inactive after every sequence of
  \<open>registerService\<close>, \<open>updateService\<close> and \<open>removeService\<close> calls, by any caller with any
  arguments, and \<open>registerService\<close> on the id is then rejected with
  \<open>'Service already exists'\<close>; a key that holds a record never becomes absent again;
  and no single call takes an absent id to inactive.
\<close>

theorem inactive_is_terminal:
  "(inactive_at s sid \<longrightarrow>
      inactive_at (run calls s) sid \<and>
      registerService address sid meth descr price cat (run calls s)
        = (Some AlreadyExists, run calls s))
   \<and> (get s (serviceKey sid) \<noteq> None \<longrightarrow> get (run calls s) (serviceKey sid) \<noteq> None)
   \<and> (get s (serviceKey sid) = None \<longrightarrow> \<not> inactive_at (snd (call c s)) sid)"
proof (intro conjI impI)
  assume a: "inactive_at s sid"
  then show "inactive_at (run calls s) sid" by (rule run_inactive)
  then have "get (run calls s) (serviceKey sid) \<noteq> None" by (rule inactive_at_present)
  then show "registerService address sid meth descr price cat (run calls s)
        = (Some AlreadyExists, run calls s)"
    by (simp add: registerService_def)
next
  assume "get s (serviceKey sid) \<noteq> None"
  then show "get (run calls s) (serviceKey sid) \<noteq> None" by (rule run_present)
next
  assume "get s (serviceKey sid) = None"
  then show "\<not> inactive_at (snd (call c s)) sid" by (rule call_absent_not_inactive)
qed

theorem inactive_is_terminal_witness:
  "inactive_at (run (example_calls @ [Remove ''alice'' ''calc'']) empty_store) ''calc''
   \<and> inactive_at (run later_calls (run (example_calls @ [Remove ''alice'' ''calc'']) empty_store))
        ''calc''
   \<and> registerService ''bob'' ''calc'' ''calc.add'' ''again'' ''2'' None
        (run later_calls (run (example_calls @ [Remove ''alice'' ''calc'']) empty_store))
      = (Some AlreadyExists,
         run later_calls (run (example_calls @ [Remove ''alice'' ''calc'']) empty_store))
   \<and> get (run example_calls empty_store) (serviceKey ''echo'') \<noteq> None
   \<and> get (run later_calls (run example_calls empty_store)) (serviceKey ''echo'') \<noteq> None
   \<and> get empty_store (serviceKey ''calc'') = None
   \<and> \<not> inactive_at (snd (call (Remove ''alice'' ''calc'') empty_store)) ''calc''"
proof -
  let ?s = "run (example_calls @ [Remove ''alice'' ''calc'']) empty_store"
  let ?t = "run example_calls empty_store"
  have i: "inactive_at ?s ''calc''" by (simp add: eval_registry)
  have p: "get ?t (serviceKey ''echo'') \<noteq> None" by (simp add: eval_registry)
  have e: "get empty_store (serviceKey ''calc'') = None" by (simp add: eval_registry)
  from inactive_is_terminal [of ?s "''calc''" later_calls "''bob''" "''calc.add''" "''again''"
      "''2''" None] i
  have a: "inactive_at (run later_calls ?s) ''calc'' \<and>
      registerService ''bob'' ''calc'' ''calc.add'' ''again'' ''2'' None (run later_calls ?s)
        = (Some AlreadyExists, run later_calls ?s)" by blast
  from inactive_is_terminal [of ?t "''echo''" later_calls] p
  have b: "get (run later_calls ?t) (serviceKey ''echo'') \<noteq> None" by blast
  from inactive_is_terminal [of empty_store "''calc''" _ _ _ _ _ _ "Remove ''alice'' ''calc''"] e
  have c: "\<not> inactive_at (snd (call (Remove ''alice'' ''calc'') empty_store)) ''calc''"
    by blast
  from i p e a b c show ?thesis by blast
qed

section \<open>Properties of the tool dispatcher\<close>

text \<open>The definitions a concrete message is evaluated with.\<close>

lemmas eval_rpc =
  handleMessage_def parseJsonRpc_def decode_payload_def served_def JSON_parse_sample_def
  calc_add_def example_tools_def open_handler_def gated_handler_def rpc_payload_def Let_def
  js_Error_def nullish_failure_def

text \<open>A payload that decodes to a value with \<open>jsonrpc\<close> equal to \<open>"2.0"\<close>, a text
  \<open>method\<close> and an \<open>id\<close> other than \<open>undefined\<close> is a request, with these fields.\<close>

lemma parseJsonRpc_conforming:
  assumes "decode_payload P payload = Some json"
    and "field json ''jsonrpc'' = JStr ''2.0''"
    and "field json ''method'' = JStr m"
    and "field json ''id'' \<noteq> JUndefined"
  shows "parseJsonRpc P payload =
           Inr (Some \<lparr> req_jsonrpc = JStr ''2.0'', req_method = m,
                        req_params = request_params json,
                        req_id = field json ''id'' \<rparr>)"
proof -
  from assms(2) have "json \<noteq> JNull" "json \<noteq> JUndefined" by auto
  with assms show ?thesis by (simp add: parseJsonRpc_def request_params_def)
qed

lemma request_params_again:
  "(if truthy (request_params json) then request_params json else JArr [])
     = request_params json"
  by (simp add: request_params_def)

text \<open>What \<open>handleMessage\<close> does with a request on a channel it serves.\<close>

lemma handleMessage_dispatch:
  assumes "served h chan"
    and "decode_payload P payload = Some json"
    and "field json ''jsonrpc'' = JStr ''2.0''"
    and "field json ''method'' = JStr m"
    and "field json ''id'' \<noteq> JUndefined"
  shows "handleMessage P h chan payload =
           (case tools h m of
              None \<Rightarrow>
                Inr (Some (ErrorEnvelope ''2.0'' (- 32601) (JStr (''Method not found: '' @ m))
                             (field json ''id'')))
            | Some t \<Rightarrow>
                (case handler t (request_params json) of
                   Returns r \<Rightarrow> Inr (Some (ResultEnvelope ''2.0'' r (field json ''id'')))
                 | Throws err \<Rightarrow>
                     if err = JNull \<or> err = JUndefined then Inl TypeError
                     else
                       Inr (Some (ErrorEnvelope ''2.0'' (- 32000)
                                    (if truthy (field err ''message'') then field err ''message''
                                     else JStr ''Internal error'')
                                    (field json ''id'')))))"
proof -
  from assms(1) have g: "\<not> (case enabledChannels h of None \<Rightarrow> False | Some cs \<Rightarrow> chan \<notin> set cs)"
    by (simp add: served_def split: option.splits)
  note rq = parseJsonRpc_conforming [OF assms(2-5)]
  show ?thesis
  proof (cases "tools h m")
    case None
    with rq g show ?thesis by (simp add: handleMessage_def)
  next
    case (Some t)
    show ?thesis
    proof (cases "handler t (request_params json)")
      case (Returns r)
      with Some rq g show ?thesis
        by (simp add: handleMessage_def request_params_again cong: if_cong)
    next
      case (Throws err)
      with Some rq g show ?thesis
        by (simp add: handleMessage_def request_params_again cong: if_cong)
    qed
  qed
qed

lemma rpc_payload_params:
  "request_params (rpc_payload m params i) = (if truthy params then params else JArr [])"
  by (simp add: rpc_payload_def request_params_def)

lemma rpc_payload_fields:
  "decode_payload P (rpc_payload m params i) = Some (rpc_payload m params i)"
  "field (rpc_payload m params i) ''jsonrpc'' = JStr ''2.0''"
  "field (rpc_payload m params i) ''method'' = JStr m"
  "field (rpc_payload m params i) ''params'' = params"
  "field (rpc_payload m params i) ''id'' = i"
  by (simp_all add: rpc_payload_def decode_payload_def)

lemma notification_payload_fields:
  "decode_payload P (notification_payload m params) = Some (notification_payload m params)"
  "field (notification_payload m params) ''jsonrpc'' = JStr ''2.0''"
  "field (notification_payload m params) ''method'' = JStr m"
  "field (notification_payload m params) ''id'' = JUndefined"
  by (simp_all add: notification_payload_def decode_payload_def)

lemma example_tools_calc_add:
  "tools open_handler ''calc.add''
     = Some \<lparr> handler = calc_add,
              metadata = \<lparr> md_description = '''', md_priceInTNK = ''0'',
                           md_category = ''general'', md_serviceId = ''calc.add'' \<rparr> \<rparr>"
  by (simp add: eval_rpc)

lemma example_tools_log_flush:
  "tools open_handler ''log.flush''
     = Some \<lparr> handler = (\<lambda>params. Returns JUndefined),
              metadata = \<lparr> md_description = '''', md_priceInTNK = ''0'',
                           md_category = ''general'', md_serviceId = ''log.flush'' \<rparr> \<rparr>"
  by (simp add: eval_rpc)

text \<open>
  C5 (as the code has it). On a channel the dispatcher serves, every conforming
  request (it decodes, \<open>jsonrpc\<close> is \<open>"2.0"\<close>, \<open>method\<close> is a text, \<open>id\<close> is present)
  whose method is not in the tool table is answered with the error envelope of
  \<open>jsonrpc\<close> \<open>"2.0"\<close>, code -32601 and the request's own id.
\<close>

theorem unknown_method_answered:
  assumes "served h chan"
    and "decode_payload P payload = Some json"
    and "field json ''jsonrpc'' = JStr ''2.0''"
    and "field json ''method'' = JStr m"
    and "field json ''id'' \<noteq> JUndefined"
    and "tools h m = None"
  shows "handleMessage P h chan payload =
           Inr (Some (ErrorEnvelope ''2.0'' (- 32601) (JStr (''Method not found: '' @ m))
                        (field json ''id'')))"
proof -
  from assms(1) have g: "\<not> (case enabledChannels h of None \<Rightarrow> False | Some cs \<Rightarrow> chan \<notin> set cs)"
    by (simp add: served_def split: option.splits)
  from parseJsonRpc_conforming [OF assms(2-5)] g assms(6) show ?thesis
    by (simp add: handleMessage_def)
qed

theorem unknown_method_answered_witness:
  "served gated_handler ''rpc''
   \<and> decode_payload JSON_parse_sample (rpc_payload ''calc.sqrt'' (JArr [JNum 9]) (JNum 7))
       = Some (rpc_payload ''calc.sqrt'' (JArr [JNum 9]) (JNum 7))
   \<and> field (rpc_payload ''calc.sqrt'' (JArr [JNum 9]) (JNum 7)) ''jsonrpc'' = JStr ''2.0''
   \<and> field (rpc_payload ''calc.sqrt'' (JArr [JNum 9]) (JNum 7)) ''method'' = JStr ''calc.sqrt''
   \<and> field (rpc_payload ''calc.sqrt'' (JArr [JNum 9]) (JNum 7)) ''id'' \<noteq> JUndefined
   \<and> tools gated_handler ''calc.sqrt'' = None
   \<and> handleMessage JSON_parse_sample gated_handler ''rpc''
        (rpc_payload ''calc.sqrt'' (JArr [JNum 9]) (JNum 7))
      = Inr (Some (ErrorEnvelope ''2.0'' (- 32601) (JStr ''Method not found: calc.sqrt'')
                     (JNum 7)))"
proof -
  let ?p = "rpc_payload ''calc.sqrt'' (JArr [JNum 9]) (JNum 7)"
  have a: "served gated_handler ''rpc''" by (simp add: eval_rpc)
  have b: "decode_payload JSON_parse_sample ?p = Some ?p" by (simp add: eval_rpc)
  have c: "field ?p ''jsonrpc'' = JStr ''2.0''" by (simp add: eval_rpc)
  have d: "field ?p ''method'' = JStr ''calc.sqrt''" by (simp add: eval_rpc)
  have e: "field ?p ''id'' \<noteq> JUndefined" by (simp add: eval_rpc)
  have f: "tools gated_handler ''calc.sqrt'' = None" by (simp add: eval_rpc)
  have g: "field ?p ''id'' = JNum 7" by (simp add: eval_rpc)
  from unknown_method_answered [OF a b c d e f] g a b c d e f show ?thesis by simp
qed

text \<open>
  C5 as the specification words it fails, for it speaks of every conforming request:
  a dispatcher with an allow-list answers \<open>null\<close>, and no error envelope, to a
  conforming request for an unknown method that arrives on a channel outside the list.
\<close>

theorem unknown_method_on_other_channel_ignored:
  "tools gated_handler ''calc.sqrt'' = None
   \<and> handleMessage JSON_parse_sample gated_handler ''chat''
        (rpc_payload ''calc.sqrt'' (JArr [JNum 9]) (JNum 7)) = Inr None"
  by (simp add: eval_rpc)

text \<open>
  C6 (as the code has it by design). On a channel the dispatcher serves, for every
  conforming request whose method is registered: if the handler fails with a value
  other than \<open>null\<close> and \<open>undefined\<close>, the answer is the error envelope with code -32000
  and the failure's \<open>message\<close>, or \<open>'Internal error'\<close> when that message is falsy (empty
  or missing); if the handler succeeds, the answer is the result envelope with the
  handler's value as it is, \<open>undefined\<close> included. Both carry the request's id. A
  failure with \<open>null\<close> or \<open>undefined\<close> is left out of the statement: see
  \<open>nullish_failure_escapes\<close> below.
\<close>

theorem registered_method_answered:
  assumes "served h chan"
    and "decode_payload P payload = Some json"
    and "field json ''jsonrpc'' = JStr ''2.0''"
    and "field json ''method'' = JStr m"
    and "field json ''id'' \<noteq> JUndefined"
    and "tools h m = Some t"
  shows "(\<forall>err. handler t (request_params json) = Throws err
                \<and> err \<noteq> JNull \<and> err \<noteq> JUndefined \<longrightarrow>
            handleMessage P h chan payload =
              Inr (Some (ErrorEnvelope ''2.0'' (- 32000)
                           (if truthy (field err ''message'') then field err ''message''
                            else JStr ''Internal error'')
                           (field json ''id''))))
       \<and> (\<forall>r. handler t (request_params json) = Returns r \<longrightarrow>
            handleMessage P h chan payload =
              Inr (Some (ResultEnvelope ''2.0'' r (field json ''id''))))"
  using handleMessage_dispatch [OF assms(1-5)] assms(6) by simp

theorem registered_method_answered_witness:
  "served open_handler ''rpc''
   \<and> handleMessage JSON_parse_sample open_handler ''rpc''
        (rpc_payload ''calc.add'' (JArr [JNum 5, JNum 3]) (JNum 1))
      = Inr (Some (ResultEnvelope ''2.0'' (JNum 8) (JNum 1)))
   \<and> handleMessage JSON_parse_sample open_handler ''rpc''
        (rpc_payload ''calc.add'' (JArr [JNum 5]) (JStr ''q-2''))
      = Inr (Some (ErrorEnvelope ''2.0'' (- 32000)
                     (JStr ''add requires exactly 2 numeric parameters'') (JStr ''q-2'')))
   \<and> handleMessage JSON_parse_sample open_handler ''rpc''
        (rpc_payload ''log.flush'' JUndefined (JNum 3))
      = Inr (Some (ResultEnvelope ''2.0'' JUndefined (JNum 3)))"
proof -
  have s: "served open_handler ''rpc''" by (simp add: eval_rpc)
  note t1 = example_tools_calc_add and t2 = example_tools_log_flush
  have i1: "JNum 1 \<noteq> JUndefined" and i2: "JStr ''q-2'' \<noteq> JUndefined"
    and i3: "JNum 3 \<noteq> JUndefined" by simp_all
  let ?p1 = "rpc_payload ''calc.add'' (JArr [JNum 5, JNum 3]) (JNum 1)"
  let ?p2 = "rpc_payload ''calc.add'' (JArr [JNum 5]) (JStr ''q-2'')"
  let ?p3 = "rpc_payload ''log.flush'' JUndefined (JNum 3)"
  from registered_method_answered [of open_handler "''rpc''" JSON_parse_sample ?p1 ?p1
      "''calc.add''", OF s _ _ _ _ t1] i1
  have a: "handleMessage JSON_parse_sample open_handler ''rpc'' ?p1
             = Inr (Some (ResultEnvelope ''2.0'' (JNum 8) (JNum 1)))"
    by (simp add: rpc_payload_fields rpc_payload_params calc_add_def)
  from registered_method_answered [of open_handler "''rpc''" JSON_parse_sample ?p2 ?p2
      "''calc.add''", OF s _ _ _ _ t1] i2
  have b: "handleMessage JSON_parse_sample open_handler ''rpc'' ?p2
             = Inr (Some (ErrorEnvelope ''2.0'' (- 32000)
                     (JStr ''add requires exactly 2 numeric parameters'') (JStr ''q-2'')))"
    by (simp add: rpc_payload_fields rpc_payload_params calc_add_def js_Error_def)
  from registered_method_answered [of open_handler "''rpc''" JSON_parse_sample ?p3 ?p3
      "''log.flush''", OF s _ _ _ _ t2] i3
  have c: "handleMessage JSON_parse_sample open_handler ''rpc'' ?p3
             = Inr (Some (ResultEnvelope ''2.0'' JUndefined (JNum 3)))"
    by (simp add: rpc_payload_fields rpc_payload_params)
  from s a b c show ?thesis by simp
qed

text \<open>
  C6 as the specification words it fails twice by the code's design: a handler that
  fails with an \<open>Error\<close> of empty message is answered with \<open>'Internal error'\<close>, which
  is not the failure's message (\<open>err.message || 'Internal error'\<close>); and on a channel
  outside the allow-list a request for a registered method is answered \<open>null\<close>.
\<close>

theorem failure_message_not_always_carried:
  "handler (the (tools open_handler ''fail.silent'')) (JArr []) = Throws (js_Error '''')
   \<and> handleMessage JSON_parse_sample open_handler ''rpc''
        (rpc_payload ''fail.silent'' (JArr []) (JNum 3))
      = Inr (Some (ErrorEnvelope ''2.0'' (- 32000) (JStr ''Internal error'') (JNum 3)))
   \<and> handleMessage JSON_parse_sample gated_handler ''chat''
        (rpc_payload ''calc.add'' (JArr [JNum 5, JNum 3]) (JNum 1))
      = Inr None"
  by (simp add: eval_rpc)

text \<open>
  Beside that design the \<open>catch\<close> block has a slip, which the statement of C6 above
  leaves out: when the handler fails with \<open>null\<close> or \<open>undefined\<close>, reading
  \<open>err.message\<close> throws a \<open>TypeError\<close> inside the \<open>catch\<close>, and \<open>handleMessage\<close> answers
  no envelope at all.
\<close>

lemma nullish_failure_escapes:
  assumes "served h chan"
    and "decode_payload P payload = Some json"
    and "field json ''jsonrpc'' = JStr ''2.0''"
    and "field json ''method'' = JStr m"
    and "field json ''id'' \<noteq> JUndefined"
    and "tools h m = Some t"
    and "nullish_failure (handler t (request_params json))"
  shows "handleMessage P h chan payload = Inl TypeError"
  using handleMessage_dispatch [OF assms(1-5)] assms(6,7)
  by (auto simp: nullish_failure_def split: outcome.splits)

lemma handler_rejecting_null_example:
  "handleMessage JSON_parse_sample open_handler ''rpc''
     (rpc_payload ''fail.null'' (JArr []) (JNum 4)) = Inl TypeError"
  by (simp add: eval_rpc)

text \<open>
  C7. The specification says that \<open>_parseJsonRpc\<close> answers \<open>null\<close> for every text that
  does not decode to structured data. The text \<open>null\<close> decodes to \<open>null\<close>; the
  property read \<open>json.jsonrpc\<close> that follows is outside the \<open>try\<close> block and throws a
  \<open>TypeError\<close>, which escapes \<open>_parseJsonRpc\<close> and \<open>handleMessage\<close>. The payload \<open>null\<close>
  itself, a text that decodes to a number and a text that does not decode are answered
  \<open>null\<close>, as the specification says.
\<close>

theorem null_text_throws:
  "JSON_parse_sample ''null'' = Some JNull
   \<and> parseJsonRpc JSON_parse_sample (JStr ''null'') = Inl TypeError
   \<and> handleMessage JSON_parse_sample open_handler ''rpc'' (JStr ''null'') = Inl TypeError
   \<and> parseJsonRpc JSON_parse_sample JNull = Inr None
   \<and> parseJsonRpc JSON_parse_sample (JStr ''42'') = Inr None
   \<and> parseJsonRpc JSON_parse_sample (JStr ''{oops'') = Inr None"
  by (simp add: eval_rpc)

text \<open>Away from that input the function does what C7 says: it always returns, and
  it answers \<open>null\<close> exactly when the payload does not decode, or \<open>jsonrpc\<close> is not
  \<open>"2.0"\<close>, or \<open>method\<close> is no text, or \<open>id\<close> is \<open>undefined\<close>.\<close>

lemma parseJsonRpc_null_text:
  "P text = Some JNull \<Longrightarrow> parseJsonRpc P (JStr text) = Inl TypeError"
  by (simp add: parseJsonRpc_def decode_payload_def)

lemma parseJsonRpc_not_a_request:
  assumes "decode_payload P payload \<noteq> Some JNull" "decode_payload P payload \<noteq> Some JUndefined"
  shows "parseJsonRpc P payload = Inr None \<longleftrightarrow>
           (case decode_payload P payload of
              None \<Rightarrow> True
            | Some json \<Rightarrow> field json ''jsonrpc'' \<noteq> JStr ''2.0''
                 \<or> (\<forall>m. field json ''method'' \<noteq> JStr m)
                 \<or> field json ''id'' = JUndefined)"
  using assms
  by (auto simp: parseJsonRpc_def split: option.splits jsval.splits)

lemma parseJsonRpc_total:
  assumes "decode_payload P payload \<noteq> Some JNull" "decode_payload P payload \<noteq> Some JUndefined"
  shows "\<exists>r. parseJsonRpc P payload = Inr r"
  using assms
  by (auto simp: parseJsonRpc_def split: option.splits jsval.splits)

text \<open>
  C10 (as the code has it by design). On a channel the dispatcher serves, for every
  payload that decodes to a value with \<open>jsonrpc\<close> \<open>"2.0"\<close> and a text \<open>method\<close>: if its
  \<open>id\<close> is anything but \<open>undefined\<close> (\<open>null\<close>, 0 and \<open>false\<close> included), and the method
  is unknown or its handler succeeds or fails with a value other than \<open>null\<close> and
  \<open>undefined\<close>, the answer is an envelope with that id; if its \<open>id\<close> is \<open>undefined\<close> the
  answer is \<open>null\<close>. A handler that fails with \<open>null\<close> or \<open>undefined\<close> is left out of the
  statement (\<open>nullish_failure_escapes\<close> above).
\<close>

theorem id_decides_request:
  assumes "served h chan"
    and "decode_payload P payload = Some json"
    and "field json ''jsonrpc'' = JStr ''2.0''"
    and "field json ''method'' = JStr m"
  shows "(field json ''id'' \<noteq> JUndefined
          \<and> (case tools h m of
                None \<Rightarrow> True
              | Some t \<Rightarrow> \<not> nullish_failure (handler t (request_params json)))
          \<longrightarrow>
            (\<exists>env. handleMessage P h chan payload = Inr (Some env)
                   \<and> env_id env = field json ''id''))
       \<and> (field json ''id'' = JUndefined \<longrightarrow> handleMessage P h chan payload = Inr None)"
proof (intro conjI impI)
  from assms(1) have g: "\<not> (case enabledChannels h of None \<Rightarrow> False | Some cs \<Rightarrow> chan \<notin> set cs)"
    by (simp add: served_def split: option.splits)
  {
    assume "field json ''id'' \<noteq> JUndefined
          \<and> (case tools h m of
                None \<Rightarrow> True
              | Some t \<Rightarrow> \<not> nullish_failure (handler t (request_params json)))"
    then have i: "field json ''id'' \<noteq> JUndefined"
      and ok: "case tools h m of
                None \<Rightarrow> True
              | Some t \<Rightarrow> \<not> nullish_failure (handler t (request_params json))"
      by simp_all
    from handleMessage_dispatch [OF assms(1-4) i] ok
    show "\<exists>env. handleMessage P h chan payload = Inr (Some env) \<and> env_id env = field json ''id''"
      by (auto simp: nullish_failure_def split: option.splits outcome.splits)
  }
  {
    assume i: "field json ''id'' = JUndefined"
    from assms(3) have "json \<noteq> JNull" "json \<noteq> JUndefined" by auto
    with assms i have "parseJsonRpc P payload = Inr None"
      by (simp add: parseJsonRpc_def)
    then show "handleMessage P h chan payload = Inr None"
      by (simp add: handleMessage_def)
  }
qed

theorem id_decides_request_witness:
  "served gated_handler ''rpc''
   \<and> handleMessage JSON_parse_sample gated_handler ''rpc''
        (rpc_payload ''calc.add'' (JArr [JNum 5, JNum 3]) JNull)
      = Inr (Some (ResultEnvelope ''2.0'' (JNum 8) JNull))
   \<and> (\<exists>env. handleMessage JSON_parse_sample gated_handler ''rpc''
               (rpc_payload ''calc.sqrt'' (JArr []) (JNum 0)) = Inr (Some env)
            \<and> env_id env = JNum 0)
   \<and> (\<exists>env. handleMessage JSON_parse_sample gated_handler ''rpc''
               (rpc_payload ''calc.add'' (JArr []) (JBool False)) = Inr (Some env)
            \<and> env_id env = JBool False)
   \<and> handleMessage JSON_parse_sample gated_handler ''rpc''
        (notification_payload ''calc.add'' (JArr [JNum 5, JNum 3])) = Inr None
   \<and> handleMessage JSON_parse_sample gated_handler ''rpc''
        (rpc_payload ''calc.add'' (JArr [JNum 5, JNum 3]) JUndefined) = Inr None"
proof -
  have s: "served gated_handler ''rpc''" by (simp add: eval_rpc)
  have n: "JNull \<noteq> JUndefined" "JNum 0 \<noteq> JUndefined" "JBool False \<noteq> JUndefined" by simp_all
  have k1: "case tools gated_handler ''calc.add'' of
              None \<Rightarrow> True
            | Some t \<Rightarrow> \<not> nullish_failure (handler t (request_params
                  (rpc_payload ''calc.add'' (JArr [JNum 5, JNum 3]) JNull)))"
    by (simp add: eval_rpc request_params_def)
  have k2: "case tools gated_handler ''calc.sqrt'' of
              None \<Rightarrow> True
            | Some t \<Rightarrow> \<not> nullish_failure (handler t (request_params
                  (rpc_payload ''calc.sqrt'' (JArr []) (JNum 0))))"
    by (simp add: eval_rpc request_params_def)
  have k3: "case tools gated_handler ''calc.add'' of
              None \<Rightarrow> True
            | Some t \<Rightarrow> \<not> nullish_failure (handler t (request_params
                  (rpc_payload ''calc.add'' (JArr []) (JBool False))))"
    by (simp add: eval_rpc request_params_def)
  let ?p1 = "rpc_payload ''calc.add'' (JArr [JNum 5, JNum 3]) JNull"
  let ?p2 = "rpc_payload ''calc.sqrt'' (JArr []) (JNum 0)"
  let ?p3 = "rpc_payload ''calc.add'' (JArr []) (JBool False)"
  let ?p4 = "notification_payload ''calc.add'' (JArr [JNum 5, JNum 3])"
  let ?p5 = "rpc_payload ''calc.add'' (JArr [JNum 5, JNum 3]) JUndefined"
  from id_decides_request [of gated_handler "''rpc''" JSON_parse_sample ?p1 ?p1 "''calc.add''",
      OF s] n k1
  have "\<exists>env. handleMessage JSON_parse_sample gated_handler ''rpc'' ?p1 = Inr (Some env)
            \<and> env_id env = JNull"
    by (simp add: rpc_payload_fields)
  moreover have "handleMessage JSON_parse_sample gated_handler ''rpc'' ?p1
      = Inr (Some (ResultEnvelope ''2.0'' (JNum 8) JNull))"
    by (simp add: eval_rpc)
  ultimately have a: "handleMessage JSON_parse_sample gated_handler ''rpc'' ?p1
      = Inr (Some (ResultEnvelope ''2.0'' (JNum 8) JNull))" by simp
  from id_decides_request [of gated_handler "''rpc''" JSON_parse_sample ?p2 ?p2 "''calc.sqrt''",
      OF s] n k2
  have b: "\<exists>env. handleMessage JSON_parse_sample gated_handler ''rpc'' ?p2 = Inr (Some env)
            \<and> env_id env = JNum 0"
    by (simp add: rpc_payload_fields)
  from id_decides_request [of gated_handler "''rpc''" JSON_parse_sample ?p3 ?p3 "''calc.add''",
      OF s] n k3
  have c: "\<exists>env. handleMessage JSON_parse_sample gated_handler ''rpc'' ?p3 = Inr (Some env)
            \<and> env_id env = JBool False"
    by (simp add: rpc_payload_fields)
  from id_decides_request [of gated_handler "''rpc''" JSON_parse_sample ?p4 ?p4 "''calc.add''",
      OF s]
  have d: "handleMessage JSON_parse_sample gated_handler ''rpc'' ?p4 = Inr None"
    by (simp add: notification_payload_fields)
  from id_decides_request [of gated_handler "''rpc''" JSON_parse_sample ?p5 ?p5 "''calc.add''",
      OF s]
  have e: "handleMessage JSON_parse_sample gated_handler ''rpc'' ?p5 = Inr None"
    by (simp add: rpc_payload_fields)
  from s a b c d e show ?thesis by blast
qed

text \<open>
  C10 as it is worded fails by the code's design, for it speaks of every payload
  whose \<open>id\<close> is present: a request with \<open>id\<close> \<open>null\<close> on a channel outside the
  allow-list is answered \<open>null\<close>, and so is a payload with \<open>id\<close> \<open>null\<close> that lacks
  \<open>jsonrpc\<close>.
\<close>

theorem present_id_not_always_answered:
  "handleMessage JSON_parse_sample gated_handler ''chat''
     (rpc_payload ''calc.add'' (JArr [JNum 5, JNum 3]) JNull) = Inr None
   \<and> field (JObj [(''method'', JStr ''calc.add''), (''id'', JNull)]) ''id'' = JNull
   \<and> handleMessage JSON_parse_sample open_handler ''rpc''
        (JObj [(''method'', JStr ''calc.add''), (''id'', JNull)]) = Inr None"
  by (simp add: eval_rpc)

section \<open>Properties of the canonical codec\<close>

text \<open>Structurally equal values have the same canonical encoding, whatever
  \<open>JSON.stringify\<close> does on scalars and keys.\<close>

lemma stableStringify_struct_eq:
  "keys_distinct v \<Longrightarrow> keys_distinct w \<Longrightarrow> struct_eq v w \<Longrightarrow>
     stableStringify J v = stableStringify J w"
proof (induction v w rule: struct_eq.induct)
  case (1 xs ys)
  from "1.prems" have len: "length xs = length ys"
    and rel: "\<And>i. i < length xs \<Longrightarrow> struct_eq (xs ! i) (ys ! i)"
    by (simp_all add: list_all2_conv_all_nth)
  from "1.prems" have dx: "\<And>i. i < length xs \<Longrightarrow> keys_distinct (xs ! i)"
    and dy: "\<And>i. i < length ys \<Longrightarrow> keys_distinct (ys ! i)"
    by (simp_all add: list_all_length)
  have "map (stableStringify J) xs = map (stableStringify J) ys"
  proof (rule nth_equalityI)
    show "length (map (stableStringify J) xs) = length (map (stableStringify J) ys)"
      using len by simp
  next
    fix i assume "i < length (map (stableStringify J) xs)"
    then have i: "i < length xs" by simp
    with len have i': "i < length ys" by simp
    from i i' have "stableStringify J (xs ! i) = stableStringify J (ys ! i)"
      by (intro "1.IH" dx dy rel) simp_all
    with i i' show "map (stableStringify J) xs ! i = map (stableStringify J) ys ! i"
      by simp
  qed
  then show ?case by simp
next
  case (2 kvs kvs')
  from "2.prems"(1) have dk: "distinct (map fst kvs)"
    and a1: "\<forall>k\<in>set (map fst kvs). keys_distinct (field (JObj kvs) k)"
    unfolding keys_distinct.simps list_all_iff by blast+
  from "2.prems"(2) have dk': "distinct (map fst kvs')"
    and a2: "\<forall>k\<in>set (map fst kvs'). keys_distinct (field (JObj kvs') k)"
    unfolding keys_distinct.simps list_all_iff by blast+
  from "2.prems"(3) have sets: "set (map fst kvs) = set (map fst kvs')"
    and a3: "\<forall>k\<in>set (map fst kvs).
               struct_eq (field (JObj kvs) k) (field (JObj kvs') k)"
    unfolding struct_eq.simps list_all_iff by blast+
  have keys: "sort (map fst kvs) = sort (map fst kvs')"
    by (rule sorted_distinct_set_unique) (use sets dk dk' in simp_all)
  have "stableStringify J (field (JObj kvs) key) = stableStringify J (field (JObj kvs') key)"
    if "key \<in> set (map fst kvs)" for key
  proof (rule "2.IH" [OF that])
    from a1 that show "keys_distinct (field (JObj kvs) key)" by blast
    from a2 that sets show "keys_distinct (field (JObj kvs') key)" by blast
    from a3 that show "struct_eq (field (JObj kvs) key) (field (JObj kvs') key)" by blast
  qed
  then have "map (\<lambda>key. J (JStr key) @ '':'' @ stableStringify J (field (JObj kvs) key))
                 (sort (map fst kvs))
           = map (\<lambda>key. J (JStr key) @ '':'' @ stableStringify J (field (JObj kvs') key))
                 (sort (map fst kvs))"
    by (intro map_cong refl) simp
  with keys show ?case by (simp only: stableStringify.simps Let_def)
qed simp_all

lemma sort_keys_example: "sort [''b'', ''a'', ''ab'', ''B''] = [''B'', ''a'', ''ab'', ''b'']"
  by code_simp

lemma nested_related:
  "keys_distinct nested_1 \<and> keys_distinct nested_2 \<and> struct_eq nested_1 nested_2"
  by code_simp

lemma canonical_text_ab:
  "stableStringify JSON_stringify_sample obj_ab
     = ''{'' @ [CHR 0x22] @ ''a'' @ [CHR 0x22] @ '':1,'' @ [CHR 0x22] @ ''b'' @ [CHR 0x22] @ '':2}''"
  by code_simp

text \<open>
  C8. For every two structurally equal values (objects holding each key once) the
  canonical encodings are the same text; \<open>null\<close> and \<open>undefined\<close> encode as \<open>null\<close>;
  an object is encoded as its \<open>"key":value\<close> pairs, joined by commas inside braces, in
  the ascending lexicographic order of the keys, each key once; and the encodings of
  \<open>{"b":2,"a":1}\<close> and \<open>{"a":1,"b":2}\<close> are the same.
\<close>

theorem stableStringify_canonical:
  "(keys_distinct v \<and> keys_distinct w \<and> struct_eq v w \<longrightarrow>
      stableStringify J v = stableStringify J w)
   \<and> stableStringify J JNull = ''null'' \<and> stableStringify J JUndefined = ''null''
   \<and> (\<exists>keys. sorted keys \<and> set keys = set (map fst kvs) \<and> length keys = length kvs
         \<and> stableStringify J (JObj kvs) =
             ''{'' @ join '','' (map (\<lambda>key. J (JStr key) @ '':'' @
                                      stableStringify J (field (JObj kvs) key)) keys) @ ''}'')
   \<and> stableStringify J obj_ba = stableStringify J obj_ab"
proof (intro conjI impI)
  assume "keys_distinct v \<and> keys_distinct w \<and> struct_eq v w"
  then show "stableStringify J v = stableStringify J w"
    by (simp add: stableStringify_struct_eq)
next
  show "stableStringify J JNull = ''null''" by simp
  show "stableStringify J JUndefined = ''null''" by simp
next
  have "sorted (sort (map fst kvs))" "set (sort (map fst kvs)) = set (map fst kvs)"
    "length (sort (map fst kvs)) = length kvs"
    by simp_all
  moreover have "stableStringify J (JObj kvs) =
             ''{'' @ join '','' (map (\<lambda>key. J (JStr key) @ '':'' @
                           stableStringify J (field (JObj kvs) key)) (sort (map fst kvs))) @ ''}''"
    by (simp only: stableStringify.simps Let_def)
  ultimately show "\<exists>keys. sorted keys \<and> set keys = set (map fst kvs) \<and> length keys = length kvs
         \<and> stableStringify J (JObj kvs) =
             ''{'' @ join '','' (map (\<lambda>key. J (JStr key) @ '':'' @
                                      stableStringify J (field (JObj kvs) key)) keys) @ ''}''"
    by blast
next
  have "keys_distinct obj_ba" "keys_distinct obj_ab" "struct_eq obj_ba obj_ab"
    by (auto simp: obj_ba_def obj_ab_def)
  then show "stableStringify J obj_ba = stableStringify J obj_ab"
    by (rule stableStringify_struct_eq)
qed

theorem stableStringify_canonical_witness:
  "keys_distinct nested_1 \<and> keys_distinct nested_2 \<and> struct_eq nested_1 nested_2
   \<and> nested_1 \<noteq> nested_2
   \<and> stableStringify JSON_stringify_sample nested_1 = stableStringify JSON_stringify_sample nested_2
   \<and> keys_distinct obj_ba \<and> keys_distinct obj_ab \<and> struct_eq obj_ba obj_ab
   \<and> stableStringify JSON_stringify_sample obj_ba
       = ''{'' @ [CHR 0x22] @ ''a'' @ [CHR 0x22] @ '':1,'' @ [CHR 0x22] @ ''b'' @ [CHR 0x22] @ '':2}''"
proof -
  note r = nested_related
  have n: "nested_1 \<noteq> nested_2" by (simp add: nested_1_def nested_2_def)
  have o: "keys_distinct obj_ba \<and> keys_distinct obj_ab \<and> struct_eq obj_ba obj_ab"
    by code_simp
  from stableStringify_canonical [of nested_1 nested_2 JSON_stringify_sample] r
  have a: "stableStringify JSON_stringify_sample nested_1
             = stableStringify JSON_stringify_sample nested_2" by blast
  from stableStringify_canonical [of obj_ba obj_ab JSON_stringify_sample] o
  have "stableStringify JSON_stringify_sample obj_ba
          = stableStringify JSON_stringify_sample obj_ab" by blast
  with canonical_text_ab
  have b: "stableStringify JSON_stringify_sample obj_ba
       = ''{'' @ [CHR 0x22] @ ''a'' @ [CHR 0x22] @ '':1,'' @ [CHR 0x22] @ ''b'' @ [CHR 0x22] @ '':2}''"
    by simp
  from r n a o b show ?thesis by blast
qed

section \<open>Properties of invite issuance\<close>

text \<open>The arithmetic of the whole-number doubles at some inputs: rounding to 53 bits
  with ties to even, the largest double and the first number that rounds to
  \<open>Infinity\<close>, and \<open>Number.parseInt\<close>.\<close>

lemma round_int_examples:
  "round_int 5 = Fin 5"
  "round_int 9007199254740993 = Fin 9007199254740992"
  "round_int 9007199254740995 = Fin 9007199254740996"
  "round_int (- 9007199254740995) = Fin (- 9007199254740996)"
  "round_int (2 ^ 1024 - 2 ^ 970 - 1) = Fin (2 ^ 1024 - 2 ^ 971)"
  "round_int (2 ^ 1024 - 2 ^ 970) = PosInf"
  by code_simp+

lemma dparseInt_examples:
  "dparseInt ''600'' = Fin 600"
  "dparseInt ''12px'' = Fin 12"
  "dparseInt ''abc'' = NaN"
  "dparseInt '' -5'' = Fin (- 5)"
  by code_simp+

text \<open>
  What holds of the command whatever the platform's arithmetic does. Every invite it
  prints is issued at \<open>Date.now()\<close>, and its expiry is the sum \<open>issuedAt + ttlMs\<close> as
  the platform computes it, for a \<open>ttlMs\<close> that passed the guard
  \<open>!ttlMs || ttlMs <= 0\<close>. With no TTL option and no finite positive default, no invite
  is printed, and \<open>'Invite TTL is required'\<close> is printed once the command has what it
  needs to sign.
\<close>

lemma issued_invite_expiry:
  assumes "sc_invite ops env = InviteIssued iv"
  shows "\<exists>ttlMs. invite_ttlMs ops env (ttl_arg env) = Some ttlMs
           \<and> \<not> num_falsy ops ttlMs \<and> \<not> num_less_eq ops ttlMs (num_of_int ops 0)
           \<and> issuedAt (inv_payload iv) = date_now env
           \<and> expiresAt (inv_payload iv) = num_plus ops (date_now env) ttlMs"
  using assms
  by (auto simp: sc_invite_def Let_def normalizeInvitePayload_def
           split: option.splits if_splits)

lemma no_ttl_no_invite:
  assumes "ttl_arg env = None"
    and "case inviteTtlMs env of
           None \<Rightarrow> True
         | Some d \<Rightarrow> \<not> (num_isFinite ops d \<and> num_greater ops d (num_of_int ops 0))"
    and "num_falsy ops (num_of_int ops 0)"
  shows "sc_invite ops env \<noteq> InviteIssued iv"
    and "invite_ready env \<Longrightarrow> sc_invite ops env = TtlRequired"
proof -
  from assms(1,2) have z: "invite_ttlMs ops env (ttl_arg env) = Some (num_of_int ops 0)"
    by (auto simp: invite_ttlMs_def split: option.splits)
  show "sc_invite ops env \<noteq> InviteIssued iv"
    using z assms(3) by (simp add: sc_invite_def Let_def split: option.splits)
  show "sc_invite ops env = TtlRequired" if "invite_ready env"
    using z assms(3) that
    by (auto simp: sc_invite_def Let_def invite_ready_def falsy_text_def split: option.splits)
qed

text \<open>
  C9. The specification says that every invite the command prints has an expiry
  \<open>issuedAt + ttlSeconds * 1000\<close> later than \<open>issuedAt\<close>. The guard of the command tests
  only that \<open>ttlSec\<close> is finite and that \<open>ttlMs\<close> is neither falsy nor \<open><= 0\<close>. For the
  TTL option that writes \<open>10^306\<close>, \<open>ttlSec\<close> is finite, the product \<open>ttlSec * 1000\<close>
  overflows to \<open>Infinity\<close>, which passes the guard, and the invite is signed and printed
  with the expiry \<open>Infinity\<close>, no moment in time (\<open>JSON.stringify\<close> writes it as \<open>null\<close>).
  With a TTL of 600 seconds, or the default of 90000 milliseconds, the expiry is as the
  specification says; with no TTL and no default, and with the TTL 0, the command
  refuses.
\<close>

theorem huge_ttl_invite_never_expires:
  "sc_invite double_ops (example_env (Some huge_ttl) None) = InviteIssued (example_invite PosInf)
   \<and> \<not> num_isFinite double_ops (expiresAt (inv_payload (example_invite PosInf)))
   \<and> num_isFinite double_ops (num_parseInt double_ops huge_ttl)
   \<and> sc_invite double_ops (example_env (Some ''600'') None)
       = InviteIssued (example_invite (Fin 1700000600000))
   \<and> sc_invite double_ops (example_env None (Some (Fin 90000)))
       = InviteIssued (example_invite (Fin 1700000090000))
   \<and> sc_invite double_ops (example_env None None) = TtlRequired
   \<and> sc_invite double_ops (example_env (Some ''0'') (Some (Fin 90000))) = TtlRequired"
  by code_simp

end
